theory Spec2Isabelle
  imports Complex_Main
begin

section \<open>Python values and framework objects\<close>

text \<open>
  Primary keys are UUIDs; only their identity matters, so they are natural numbers here.
  A \<open>datetime\<close> is a number of microseconds since the epoch (the resolution of Python's
  \<open>datetime\<close> and \<open>timedelta\<close>).
\<close>

type_synonym uuid = nat
type_synonym datetime = int

text \<open>
  The exceptions the modelled code can raise. \<open>Http404\<close> is what \<open>get_object()\<close> raises
  when the primary key is not in the view's queryset.
\<close>

datatype py_error = TypeError | AttributeError | ValueError | ValidationError
  | IntegrityError | Http404

text \<open>
  The dynamically typed values that reach arithmetic: a \<open>str\<close> (query parameters), a
  \<open>decimal.Decimal\<close> (every \<open>DecimalField\<close> read from the database) and a \<open>float\<close>.
  Floats are modelled by the real number they stand for; IEEE rounding is not modelled.
\<close>

datatype pyval = PyStr string | Decimal rat | PyFloat real

text \<open>
  Python's \<open>+\<close> (and \<open>+=\<close>): \<open>Decimal\<close> and \<open>float\<close> do not mix, both
  \<open>Decimal.__add__\<close> and \<open>float.__radd__\<close> return \<open>NotImplemented\<close>, and the
  interpreter raises \<open>TypeError\<close>. A \<open>str\<close> only adds to a \<open>str\<close>.
\<close>

fun py_add :: "pyval \<Rightarrow> pyval \<Rightarrow> py_error + pyval" where
  "py_add (Decimal a) (Decimal b) = Inr (Decimal (a + b))"
| "py_add (PyFloat a) (PyFloat b) = Inr (PyFloat (a + b))"
| "py_add (PyStr a) (PyStr b) = Inr (PyStr (a @ b))"
| "py_add _ _ = Inl TypeError"

text \<open>\<open>timedelta.total_seconds()\<close> of a difference of two datetimes: a float.\<close>

definition total_seconds :: "int \<Rightarrow> real" where
  "total_seconds microseconds = real_of_int microseconds / 1000000"

text \<open>Float floor division \<open>x // y\<close> for a positive divisor: the floor, as a float.\<close>

definition floordiv :: "real \<Rightarrow> real \<Rightarrow> real" where
  "floordiv x y = of_int \<lfloor>x / y\<rfloor>"

text \<open>
  The authenticated user of a request (the \<open>User\<close> model itself is not part of the
  modelled code; only these attributes are read), and the request: its user, its query
  string and its body.
\<close>

record User =
  id_u :: uuid
  is_staff :: bool
  is_host :: bool

text \<open>
  A value of \<open>request.data\<close> as the serializer field that reads it sees it: the value a
  UUID, character, date-time, decimal or JSON-list field accepts, already parsed, or JSON
  \<open>null\<close>. A key bound to a value of another kind than its field takes is an input the
  field rejects.
\<close>

datatype field_value = Null | UUIDValue uuid | CharValue string | DateTimeValue datetime
  | DecimalValue rat | ListValue "string list"

record request =
  req_user :: User
  query_params :: "string \<rightharpoonup> string"
  data :: "string \<rightharpoonup> field_value"

text \<open>
  A response: the serialized entity, a dictionary of strings, or the serializer's
  validation errors (the names of the rejected fields), with the HTTP status.
\<close>

datatype 'a body = Serialized 'a | Dict "(string \<times> string) list" | Errors "string list"

datatype 'a response = Response "'a body" nat

text \<open>Python truthiness of an optional string: \<open>None\<close> and \<open>''\<close> are falsy.\<close>

fun truthy :: "string option \<Rightarrow> bool" where
  "truthy None = False"
| "truthy (Some s) = (s \<noteq> [])"

section \<open>Bookings\<close>

subsection \<open>The model \<open>BookingSession\<close>\<close>

definition STATUS_CHOICES :: "string list" where
  "STATUS_CHOICES = [''pending'', ''confirmed'', ''active'', ''completed'', ''cancelled'', ''disputed'']"

record BookingSession =
  id_b :: uuid
  user :: uuid
  spot_id :: uuid
  spot_type :: string
  booking_time :: datetime
  scheduled_start_time :: datetime
  actual_start_time :: "datetime option"
  scheduled_end_time :: datetime
  actual_end_time :: "datetime option"
  duration :: pyval
  total_cost :: pyval
  overstay_fee :: "pyval option"
  status :: string
  access_code :: "string option"
  created_at :: datetime
  updated_at :: datetime

text \<open>
  The table \<open>booking_sessions\<close> is the list of its rows. \<open>save()\<close> stamps
  \<open>updated_at\<close> (\<open>auto_now=True\<close>) with the time of the save and writes the row with
  the instance's primary key, inserting it when there is none.
\<close>

definition save_booking :: "datetime \<Rightarrow> BookingSession \<Rightarrow> BookingSession list
    \<Rightarrow> BookingSession \<times> BookingSession list" where
  "save_booking ts booking objects =
     (let booking = booking\<lparr>updated_at := ts\<rparr>
      in (booking,
          if \<exists>r \<in> set objects. id_b r = id_b booking
          then map (\<lambda>r. if id_b r = id_b booking then booking else r) objects
          else objects @ [booking]))"

subsection \<open>\<open>BookingSessionViewSet\<close>\<close>

text \<open>
  \<open>get_queryset\<close>: non-staff users see their own bookings only; with
  \<open>host_spots=true\<close> a host sees the bookings of the spots and slots they own.
  \<open>all_owned_ids\<close> is the list the three ownership queries on the parking tables
  produce for the user.
\<close>

definition get_queryset :: "request \<Rightarrow> uuid list \<Rightarrow> BookingSession list \<Rightarrow> BookingSession list" where
  "get_queryset req all_owned_ids objects =
     (let usr = req_user req;
          queryset = (if \<not> is_staff usr then filter (\<lambda>b. user b = id_u usr) objects else objects);
          host_spots = query_params req ''host_spots''
      in if host_spots = Some ''true'' \<and> is_host usr
         then filter (\<lambda>b. spot_id b \<in> set all_owned_ids) queryset
         else queryset)"

text \<open>\<open>get_object()\<close>: the row of the view's queryset with the requested primary key.\<close>

definition get_object :: "request \<Rightarrow> uuid list \<Rightarrow> BookingSession list \<Rightarrow> uuid \<Rightarrow> BookingSession option" where
  "get_object req all_owned_ids objects pk =
     find (\<lambda>b. id_b b = pk) (get_queryset req all_owned_ids objects)"

type_synonym booking_result = "py_error + (BookingSession response \<times> BookingSession list)"

text \<open>
  Each action takes the request, the owned ids, \<open>now\<close> (the reading of
  \<open>timezone.now()\<close> in the action), \<open>ts\<close> (the later reading \<open>save()\<close> makes for
  \<open>updated_at\<close>), the table and the primary key of the URL. It returns the exception
  raised, or the response with the table as the action leaves it.
\<close>

definition start :: "request \<Rightarrow> uuid list \<Rightarrow> datetime \<Rightarrow> datetime \<Rightarrow> BookingSession list \<Rightarrow> uuid
    \<Rightarrow> booking_result" where
  "start req all_owned_ids now ts objects pk =
     (case get_object req all_owned_ids objects pk of
        None \<Rightarrow> Inl Http404
      | Some booking \<Rightarrow>
          if status booking \<noteq> ''confirmed'' then
            Inr (Response (Dict [(''error'', ''Only confirmed bookings can be started'')]) 400, objects)
          else
            (let booking = booking\<lparr>actual_start_time := Some now, status := ''active''\<rparr>;
                 (booking, objects) = save_booking ts booking objects
             in Inr (Response (Serialized booking) 200, objects)))"

text \<open>
  \<open>end\<close>: the overstay is a float (\<open>total_seconds() / 60\<close>), so is the fee
  (\<open>(overstay_duration // 15) * 20\<close>), and \<open>booking.total_cost += overstay_fee\<close> adds
  it to the value of a \<open>DecimalField\<close>.
\<close>

definition end_booking :: "request \<Rightarrow> uuid list \<Rightarrow> datetime \<Rightarrow> datetime \<Rightarrow> BookingSession list \<Rightarrow> uuid
    \<Rightarrow> booking_result" where
  "end_booking req all_owned_ids now ts objects pk =
     (case get_object req all_owned_ids objects pk of
        None \<Rightarrow> Inl Http404
      | Some booking \<Rightarrow>
          if status booking \<noteq> ''active'' then
            Inr (Response (Dict [(''error'', ''Only active bookings can be ended'')]) 400, objects)
          else
            (let booking = booking\<lparr>actual_end_time := Some now, status := ''completed''\<rparr>
             in if now > scheduled_end_time booking then
                  (let overstay_duration = total_seconds (now - scheduled_end_time booking) / 60;
                       fee = PyFloat (floordiv overstay_duration 15 * 20)
                   in case py_add (total_cost booking) fee of
                        Inl e \<Rightarrow> Inl e
                      | Inr cost \<Rightarrow>
                          (let booking = booking\<lparr>overstay_fee := Some fee, total_cost := cost\<rparr>;
                               (booking, objects) = save_booking ts booking objects
                           in Inr (Response (Serialized booking) 200, objects)))
                else
                  (let (booking, objects) = save_booking ts booking objects
                   in Inr (Response (Serialized booking) 200, objects))))"

definition cancel :: "request \<Rightarrow> uuid list \<Rightarrow> datetime \<Rightarrow> BookingSession list \<Rightarrow> uuid
    \<Rightarrow> booking_result" where
  "cancel req all_owned_ids ts objects pk =
     (case get_object req all_owned_ids objects pk of
        None \<Rightarrow> Inl Http404
      | Some booking \<Rightarrow>
          if status booking \<in> set [''completed'', ''cancelled''] then
            Inr (Response (Dict [(''error'', ''Cannot cancel completed or already cancelled bookings'')]) 400,
                 objects)
          else
            (let booking = booking\<lparr>status := ''cancelled''\<rparr>;
                 (booking, objects) = save_booking ts booking objects
             in Inr (Response (Serialized booking) 200, objects)))"

subsection \<open>Creating and updating bookings through the serializers\<close>

text \<open>The readers of one value of \<open>request.data\<close>, one for each kind of serializer field.\<close>

fun as_uuid :: "field_value option \<Rightarrow> uuid option" where
  "as_uuid (Some (UUIDValue u)) = Some u"
| "as_uuid _ = None"

fun as_char :: "field_value option \<Rightarrow> string option" where
  "as_char (Some (CharValue s)) = Some s"
| "as_char _ = None"

fun as_datetime :: "field_value option \<Rightarrow> datetime option" where
  "as_datetime (Some (DateTimeValue t)) = Some t"
| "as_datetime _ = None"

fun as_decimal :: "field_value option \<Rightarrow> rat option" where
  "as_decimal (Some (DecimalValue r)) = Some r"
| "as_decimal _ = None"

text \<open>
  A field that is not required and allows \<open>null\<close>: \<open>None\<close> when the value is rejected,
  \<open>Some None\<close> when the key is absent, \<open>Some (Some x)\<close> when it is given
  (\<open>x\<close> is \<open>None\<close> for \<open>null\<close>).
\<close>

fun nullable :: "(field_value option \<Rightarrow> 'a option) \<Rightarrow> field_value option \<Rightarrow> 'a option option option" where
  "nullable rd None = Some None"
| "nullable rd (Some Null) = Some (Some None)"
| "nullable rd (Some v) = (case rd (Some v) of None \<Rightarrow> None | Some x \<Rightarrow> Some (Some (Some x)))"

text \<open>
  \<open>validated_data\<close> of \<open>BookingSessionCreateSerializer\<close>: the seven fields of
  \<open>Meta.fields\<close>, and the two keys \<open>create\<close> adds to the dictionary.
\<close>

record booking_kwargs =
  kw_spot_id :: uuid
  kw_spot_type :: string
  kw_scheduled_start_time :: datetime
  kw_scheduled_end_time :: datetime
  kw_duration :: rat
  kw_total_cost :: rat
  kw_access_code :: "string option"
  kw_user :: "uuid option"
  kw_status :: "string option"

text \<open>
  Validation reads the keys of \<open>Meta.fields\<close> and no other key of the request. The six
  columns without \<open>null=True\<close> or a default are required; \<open>access_code\<close> is optional.
\<close>

definition create_errors :: "(string \<rightharpoonup> field_value) \<Rightarrow> string list" where
  "create_errors d =
     (if as_uuid (d ''spot_id'') = None then [''spot_id''] else []) @
     (if as_char (d ''spot_type'') = None then [''spot_type''] else []) @
     (if as_datetime (d ''scheduled_start_time'') = None then [''scheduled_start_time''] else []) @
     (if as_datetime (d ''scheduled_end_time'') = None then [''scheduled_end_time''] else []) @
     (if as_decimal (d ''duration'') = None then [''duration''] else []) @
     (if as_decimal (d ''total_cost'') = None then [''total_cost''] else []) @
     (if nullable as_char (d ''access_code'') = None then [''access_code''] else [])"

definition create_validated :: "(string \<rightharpoonup> field_value) \<Rightarrow> string list + booking_kwargs" where
  "create_validated d =
     (case (as_uuid (d ''spot_id''), as_char (d ''spot_type''),
            as_datetime (d ''scheduled_start_time''), as_datetime (d ''scheduled_end_time''),
            as_decimal (d ''duration''), as_decimal (d ''total_cost''),
            nullable as_char (d ''access_code'')) of
        (Some sid, Some st, Some t0, Some t1, Some du, Some tc, Some ac) \<Rightarrow>
          Inr \<lparr>kw_spot_id = sid, kw_spot_type = st, kw_scheduled_start_time = t0,
               kw_scheduled_end_time = t1, kw_duration = du, kw_total_cost = tc,
               kw_access_code = (case ac of None \<Rightarrow> None | Some c \<Rightarrow> c),
               kw_user = None, kw_status = None\<rparr>
      | _ \<Rightarrow> Inl (create_errors d))"

text \<open>
  \<open>BookingSession.objects.create\<close> with keyword arguments: the columns not among the keyword
  arguments take the model's defaults (\<open>status\<close> defaults to \<open>'pending'\<close>, the nullable
  columns to \<open>None\<close>), \<open>id\<close> is the fresh UUID, and the \<open>auto_now_add\<close> and
  \<open>auto_now\<close> columns take the time of the insert. A missing user or a primary key
  already in the table violates a constraint of the table.
\<close>

definition objects_create :: "uuid \<Rightarrow> datetime \<Rightarrow> booking_kwargs \<Rightarrow> BookingSession list
    \<Rightarrow> py_error + (BookingSession \<times> BookingSession list)" where
  "objects_create new_id ts kw objects =
     (case kw_user kw of
        None \<Rightarrow> Inl IntegrityError
      | Some uid \<Rightarrow>
          if \<exists>r \<in> set objects. id_b r = new_id then Inl IntegrityError
          else
            (let booking = \<lparr>id_b = new_id, user = uid, spot_id = kw_spot_id kw,
                   spot_type = kw_spot_type kw, booking_time = ts,
                   scheduled_start_time = kw_scheduled_start_time kw, actual_start_time = None,
                   scheduled_end_time = kw_scheduled_end_time kw, actual_end_time = None,
                   duration = Decimal (kw_duration kw), total_cost = Decimal (kw_total_cost kw),
                   overstay_fee = None,
                   status = (case kw_status kw of None \<Rightarrow> ''pending'' | Some s \<Rightarrow> s),
                   access_code = kw_access_code kw, created_at = ts, updated_at = ts\<rparr>
             in Inr (booking, objects @ [booking])))"

text \<open>\<open>BookingSessionCreateSerializer.create\<close>.\<close>

definition create :: "request \<Rightarrow> uuid \<Rightarrow> datetime \<Rightarrow> booking_kwargs \<Rightarrow> BookingSession list
    \<Rightarrow> py_error + (BookingSession \<times> BookingSession list)" where
  "create req new_id ts validated_data objects =
     (let validated_data = validated_data\<lparr>kw_user := Some (id_u (req_user req))\<rparr>;
          validated_data = validated_data\<lparr>kw_status := Some ''confirmed''\<rparr>
      in objects_create new_id ts validated_data objects)"

text \<open>The \<open>create\<close> action of the view set (\<open>POST\<close> on the collection).\<close>

definition create_booking :: "request \<Rightarrow> uuid \<Rightarrow> datetime \<Rightarrow> BookingSession list \<Rightarrow> booking_result" where
  "create_booking req new_id ts objects =
     (case create_validated (data req) of
        Inl errors \<Rightarrow> Inr (Response (Errors errors) 400, objects)
      | Inr validated_data \<Rightarrow>
          (case create req new_id ts validated_data objects of
             Inl e \<Rightarrow> Inl e
           | Inr (booking, objects) \<Rightarrow> Inr (Response (Serialized booking) 201, objects)))"

text \<open>
  \<open>validated_data\<close> of \<open>BookingSessionUpdateSerializer\<close>: each of the five fields of
  \<open>Meta.fields\<close> is \<open>None\<close> when the request does not give it. \<open>status\<close> is a choice
  field; \<open>total_cost\<close> is the one required field of a full update (\<open>PUT\<close>).
\<close>

record booking_update =
  up_actual_start_time :: "datetime option option"
  up_actual_end_time :: "datetime option option"
  up_status :: "string option"
  up_overstay_fee :: "rat option option"
  up_total_cost :: "rat option"

definition status_ok :: "field_value option \<Rightarrow> bool" where
  "status_ok v = (case v of None \<Rightarrow> True
                  | Some (CharValue s) \<Rightarrow> s \<in> set STATUS_CHOICES
                  | Some _ \<Rightarrow> False)"

definition total_cost_ok :: "bool \<Rightarrow> field_value option \<Rightarrow> bool" where
  "total_cost_ok partial v = (case v of None \<Rightarrow> partial
                              | Some (DecimalValue r) \<Rightarrow> True
                              | Some _ \<Rightarrow> False)"

definition update_errors :: "bool \<Rightarrow> (string \<rightharpoonup> field_value) \<Rightarrow> string list" where
  "update_errors partial d =
     (if nullable as_datetime (d ''actual_start_time'') = None then [''actual_start_time''] else []) @
     (if nullable as_datetime (d ''actual_end_time'') = None then [''actual_end_time''] else []) @
     (if \<not> status_ok (d ''status'') then [''status''] else []) @
     (if nullable as_decimal (d ''overstay_fee'') = None then [''overstay_fee''] else []) @
     (if \<not> total_cost_ok partial (d ''total_cost'') then [''total_cost''] else [])"

definition update_validated :: "bool \<Rightarrow> (string \<rightharpoonup> field_value) \<Rightarrow> string list + booking_update" where
  "update_validated partial d =
     (case (nullable as_datetime (d ''actual_start_time''),
            nullable as_datetime (d ''actual_end_time''),
            nullable as_decimal (d ''overstay_fee'')) of
        (Some t0, Some t1, Some fee) \<Rightarrow>
          if status_ok (d ''status'') \<and> total_cost_ok partial (d ''total_cost'')
          then Inr \<lparr>up_actual_start_time = t0, up_actual_end_time = t1,
                    up_status = as_char (d ''status''), up_overstay_fee = fee,
                    up_total_cost = as_decimal (d ''total_cost'')\<rparr>
          else Inl (update_errors partial d)
      | _ \<Rightarrow> Inl (update_errors partial d))"

text \<open>
  \<open>ModelSerializer.update\<close>: every key of \<open>validated_data\<close> is set on the instance,
  which is then saved.
\<close>

definition set_attrs :: "booking_update \<Rightarrow> BookingSession \<Rightarrow> BookingSession" where
  "set_attrs vd booking =
     (let booking = (case up_actual_start_time vd of None \<Rightarrow> booking
                     | Some t \<Rightarrow> booking\<lparr>actual_start_time := t\<rparr>);
          booking = (case up_actual_end_time vd of None \<Rightarrow> booking
                     | Some t \<Rightarrow> booking\<lparr>actual_end_time := t\<rparr>);
          booking = (case up_status vd of None \<Rightarrow> booking
                     | Some s \<Rightarrow> booking\<lparr>status := s\<rparr>);
          booking = (case up_overstay_fee vd of None \<Rightarrow> booking
                     | Some f \<Rightarrow> booking\<lparr>overstay_fee := map_option Decimal f\<rparr>);
          booking = (case up_total_cost vd of None \<Rightarrow> booking
                     | Some c \<Rightarrow> booking\<lparr>total_cost := Decimal c\<rparr>)
      in booking)"

text \<open>The \<open>update\<close> (\<open>PUT\<close>) and \<open>partial_update\<close> (\<open>PATCH\<close>) actions of the view set.\<close>

definition update_booking :: "bool \<Rightarrow> request \<Rightarrow> uuid list \<Rightarrow> datetime \<Rightarrow> BookingSession list \<Rightarrow> uuid
    \<Rightarrow> booking_result" where
  "update_booking partial req all_owned_ids ts objects pk =
     (case get_object req all_owned_ids objects pk of
        None \<Rightarrow> Inl Http404
      | Some booking \<Rightarrow>
          (case update_validated partial (data req) of
             Inl errors \<Rightarrow> Inr (Response (Errors errors) 400, objects)
           | Inr validated_data \<Rightarrow>
               (let (booking, objects) = save_booking ts (set_attrs validated_data booking) objects
                in Inr (Response (Serialized booking) 200, objects))))"

subsection \<open>Histories of the booking table\<close>

text \<open>
  One request to the view set. A request that raises leaves the table as it was: the
  actions write the table only in the \<open>save()\<close> that ends them.
\<close>

datatype booking_op =
    Create request uuid datetime
  | Start request "uuid list" datetime datetime uuid
  | End request "uuid list" datetime datetime uuid
  | Cancel request "uuid list" datetime uuid
  | Update bool request "uuid list" datetime uuid

fun run_op :: "booking_op \<Rightarrow> BookingSession list \<Rightarrow> booking_result" where
  "run_op (Create req new_id ts) objects = create_booking req new_id ts objects"
| "run_op (Start req owned now ts pk) objects = start req owned now ts objects pk"
| "run_op (End req owned now ts pk) objects = end_booking req owned now ts objects pk"
| "run_op (Cancel req owned ts pk) objects = cancel req owned ts objects pk"
| "run_op (Update partial req owned ts pk) objects = update_booking partial req owned ts objects pk"

definition step :: "BookingSession list \<Rightarrow> booking_op \<Rightarrow> BookingSession list" where
  "step objects op = (case run_op op objects of Inl e \<Rightarrow> objects | Inr (r, objects') \<Rightarrow> objects')"

definition run :: "booking_op list \<Rightarrow> BookingSession list" where
  "run ops = foldl step [] ops"

fun is_update :: "booking_op \<Rightarrow> bool" where
  "is_update (Update partial req owned ts pk) = True"
| "is_update _ = False"

section \<open>Disputes\<close>

definition STATUS_CHOICES_d :: "string list" where
  "STATUS_CHOICES_d = [''pending'', ''under_review'', ''resolved'', ''rejected'']"

text \<open>
  The model \<open>DisputeReport\<close>. It has no \<open>auto_now\<close> column. \<open>resolution\<close> holds the
  value the \<open>resolve\<close> action read from the request and assigned.
\<close>

record DisputeReport =
  id_d :: uuid
  booking :: uuid
  reason :: string
  description :: string
  photo_urls :: "string list"
  status_d :: string
  created_at_d :: datetime
  resolved_at :: "datetime option"
  resolution :: "field_value option"

definition save_dispute :: "DisputeReport \<Rightarrow> DisputeReport list \<Rightarrow> DisputeReport list" where
  "save_dispute dispute objects =
     (if \<exists>r \<in> set objects. id_d r = id_d dispute
      then map (\<lambda>r. if id_d r = id_d dispute then dispute else r) objects
      else objects @ [dispute])"

text \<open>
  \<open>DisputeReportViewSet.get_queryset\<close>: non-staff users see the disputes of their own
  bookings (\<open>booking__user=user\<close>, a join with the booking table).
\<close>

definition get_queryset_d :: "request \<Rightarrow> BookingSession list \<Rightarrow> DisputeReport list \<Rightarrow> DisputeReport list" where
  "get_queryset_d req bookings objects =
     (let usr = req_user req
      in if \<not> is_staff usr
         then filter (\<lambda>d. \<exists>b \<in> set bookings. id_b b = booking d \<and> user b = id_u usr) objects
         else objects)"

definition get_object_d :: "request \<Rightarrow> BookingSession list \<Rightarrow> DisputeReport list \<Rightarrow> uuid \<Rightarrow> DisputeReport option" where
  "get_object_d req bookings objects pk = find (\<lambda>d. id_d d = pk) (get_queryset_d req bookings objects)"

text \<open>Python truthiness of \<open>request.data.get(key)\<close>.\<close>

fun truthy_value :: "field_value option \<Rightarrow> bool" where
  "truthy_value None = False"
| "truthy_value (Some Null) = False"
| "truthy_value (Some (CharValue s)) = (s \<noteq> [])"
| "truthy_value (Some (ListValue l)) = (l \<noteq> [])"
| "truthy_value (Some (DecimalValue r)) = (r \<noteq> 0)"
| "truthy_value (Some _) = True"

type_synonym dispute_result = "py_error + (DisputeReport response \<times> DisputeReport list)"

definition resolve :: "request \<Rightarrow> datetime \<Rightarrow> BookingSession list \<Rightarrow> DisputeReport list \<Rightarrow> uuid
    \<Rightarrow> dispute_result" where
  "resolve req now bookings objects pk =
     (if \<not> is_staff (req_user req) then
        Inr (Response (Dict [(''error'', ''Only staff can resolve disputes'')]) 403, objects)
      else
        (case get_object_d req bookings objects pk of
           None \<Rightarrow> Inl Http404
         | Some dispute \<Rightarrow>
             (let res = data req ''resolution''
              in if \<not> truthy_value res then
                   Inr (Response (Dict [(''error'', ''Resolution text required'')]) 400, objects)
                 else
                   (let dispute = dispute\<lparr>status_d := ''resolved'', resolution := res,
                                           resolved_at := Some now\<rparr>
                    in Inr (Response (Serialized dispute) 200, save_dispute dispute objects)))))"

text \<open>
  The generic \<open>update\<close> and \<open>partial_update\<close> actions \<open>ModelViewSet\<close> gives the view
  set, with \<open>DisputeReportSerializer\<close>: all columns but \<open>id\<close>, \<open>created_at\<close> and
  \<open>resolved_at\<close> are writable. The view set declares no permission of its own.
\<close>

record dispute_update =
  ud_booking :: "uuid option"
  ud_reason :: "string option"
  ud_description :: "string option"
  ud_photo_urls :: "string list option"
  ud_status :: "string option"
  ud_resolution :: "string option option"

fun as_list :: "field_value option \<Rightarrow> string list option" where
  "as_list (Some (ListValue l)) = Some l"
| "as_list _ = None"

definition given_ok :: "bool \<Rightarrow> (field_value option \<Rightarrow> 'a option) \<Rightarrow> field_value option \<Rightarrow> bool" where
  "given_ok optional rd v = (case v of None \<Rightarrow> optional | Some x \<Rightarrow> rd v \<noteq> None)"

definition dispute_valid :: "bool \<Rightarrow> BookingSession list \<Rightarrow> (string \<rightharpoonup> field_value) \<Rightarrow> bool" where
  "dispute_valid partial bookings d =
     (given_ok partial as_uuid (d ''booking'') \<and>
      (case as_uuid (d ''booking'') of None \<Rightarrow> True | Some k \<Rightarrow> \<exists>b \<in> set bookings. id_b b = k) \<and>
      given_ok partial as_char (d ''reason'') \<and>
      given_ok partial as_char (d ''description'') \<and>
      given_ok True as_list (d ''photo_urls'') \<and>
      given_ok True as_char (d ''status'') \<and>
      (case as_char (d ''status'') of None \<Rightarrow> True | Some s \<Rightarrow> s \<in> set STATUS_CHOICES_d) \<and>
      nullable as_char (d ''resolution'') \<noteq> None)"

definition dispute_validated :: "(string \<rightharpoonup> field_value) \<Rightarrow> dispute_update" where
  "dispute_validated d =
     \<lparr>ud_booking = as_uuid (d ''booking''), ud_reason = as_char (d ''reason''),
      ud_description = as_char (d ''description''), ud_photo_urls = as_list (d ''photo_urls''),
      ud_status = as_char (d ''status''),
      ud_resolution = (case nullable as_char (d ''resolution'') of
                         Some (Some x) \<Rightarrow> Some x | _ \<Rightarrow> None)\<rparr>"

definition set_attrs_d :: "dispute_update \<Rightarrow> DisputeReport \<Rightarrow> DisputeReport" where
  "set_attrs_d vd dispute =
     (let dispute = (case ud_booking vd of None \<Rightarrow> dispute | Some k \<Rightarrow> dispute\<lparr>booking := k\<rparr>);
          dispute = (case ud_reason vd of None \<Rightarrow> dispute | Some x \<Rightarrow> dispute\<lparr>reason := x\<rparr>);
          dispute = (case ud_description vd of None \<Rightarrow> dispute
                     | Some x \<Rightarrow> dispute\<lparr>description := x\<rparr>);
          dispute = (case ud_photo_urls vd of None \<Rightarrow> dispute
                     | Some x \<Rightarrow> dispute\<lparr>photo_urls := x\<rparr>);
          dispute = (case ud_status vd of None \<Rightarrow> dispute | Some x \<Rightarrow> dispute\<lparr>status_d := x\<rparr>);
          dispute = (case ud_resolution vd of None \<Rightarrow> dispute
                     | Some x \<Rightarrow> dispute\<lparr>resolution := map_option CharValue x\<rparr>)
      in dispute)"

definition update_dispute :: "bool \<Rightarrow> request \<Rightarrow> BookingSession list \<Rightarrow> DisputeReport list \<Rightarrow> uuid
    \<Rightarrow> dispute_result" where
  "update_dispute partial req bookings objects pk =
     (case get_object_d req bookings objects pk of
        None \<Rightarrow> Inl Http404
      | Some dispute \<Rightarrow>
          if \<not> dispute_valid partial bookings (data req) then
            Inr (Response (Errors []) 400, objects)
          else
            (let dispute = set_attrs_d (dispute_validated (data req)) dispute
             in Inr (Response (Serialized dispute) 200, save_dispute dispute objects)))"

section \<open>Parking spots\<close>

subsection \<open>The distance function\<close>

text \<open>
  \<open>float(x)\<close>: the parser of Python's \<open>float\<close> on strings is the parameter \<open>pf\<close>
  (\<open>None\<close> where \<open>float\<close> raises \<open>ValueError\<close>); a \<open>Decimal\<close> converts to the float
  nearest to it, here to its own value.
\<close>

fun py_float :: "(string \<Rightarrow> real option) \<Rightarrow> pyval \<Rightarrow> real option" where
  "py_float pf (PyStr s) = pf s"
| "py_float pf (Decimal r) = Some (real_of_rat r)"
| "py_float pf (PyFloat x) = Some x"

definition radians :: "real \<Rightarrow> real" where
  "radians x = x * pi / 180"

text \<open>
  \<open>calculate_distance\<close>. \<open>math.sqrt\<close> raises \<open>ValueError\<close> on a negative argument and
  \<open>math.asin\<close> on one outside \<open>[-1, 1]\<close>.
\<close>

definition calculate_distance :: "(string \<Rightarrow> real option) \<Rightarrow> pyval \<Rightarrow> pyval \<Rightarrow> pyval \<Rightarrow> pyval
    \<Rightarrow> py_error + real" where
  "calculate_distance pf lat1 lon1 lat2 lon2 =
     (case (py_float pf lat1, py_float pf lon1, py_float pf lat2, py_float pf lon2) of
        (Some lat1, Some lon1, Some lat2, Some lon2) \<Rightarrow>
          (let lat1 = radians lat1; lon1 = radians lon1; lat2 = radians lat2; lon2 = radians lon2;
               dlon = lon2 - lon1;
               dlat = lat2 - lat1;
               a = (sin (dlat / 2))\<^sup>2 + cos lat1 * cos lat2 * (sin (dlon / 2))\<^sup>2
           in if a < 0 \<or> 1 < sqrt a then Inl ValueError
              else (let c = 2 * arcsin (sqrt a);
                        km = 6371 * c
                    in Inr (km * 1000)))
      | _ \<Rightarrow> Inl ValueError)"

subsection \<open>The model \<open>ParkingSpot\<close>\<close>

record ParkingSpot =
  id_s :: uuid
  owner :: uuid
  address :: string
  latitude :: rat
  longitude :: rat
  spot_type_s :: string
  price_per_hour :: rat
  daily_rate :: "rat option"
  monthly_rate :: "rat option"
  has_cctv :: bool
  is_covered :: bool
  has_ev_charging :: bool
  is_accessible :: bool
  is_24_hours :: bool
  has_insurance :: bool
  has_valet_service :: bool
  has_car_wash :: bool
  has_security_guard :: bool
  has_water_access :: bool
  is_occupied :: bool
  is_disabled :: bool
  rating :: rat
  review_count :: int
  access_pin :: "string option"
  created_at_s :: datetime
  updated_at_s :: datetime

definition save_spot :: "datetime \<Rightarrow> ParkingSpot \<Rightarrow> ParkingSpot list \<Rightarrow> ParkingSpot \<times> ParkingSpot list" where
  "save_spot ts spot objects =
     (let spot = spot\<lparr>updated_at_s := ts\<rparr>
      in (spot,
          if \<exists>r \<in> set objects. id_s r = id_s spot
          then map (\<lambda>r. if id_s r = id_s spot then spot else r) objects
          else objects @ [spot]))"

subsection \<open>\<open>ParkingSpotViewSet\<close>\<close>

text \<open>
  \<open>get_queryset\<close> returns a \<open>QuerySet\<close>, or, when the request gives \<open>lat\<close> and
  \<open>lon\<close>, a Python list of the spots, each carrying its \<open>distance\<close> attribute.
\<close>

datatype spots = QuerySet "ParkingSpot list" | PyList "(ParkingSpot \<times> real) list"

text \<open>The loop that annotates every spot of the queryset with its distance.\<close>

fun spots_with_distance :: "(string \<Rightarrow> real option) \<Rightarrow> string \<Rightarrow> string \<Rightarrow> ParkingSpot list
    \<Rightarrow> py_error + (ParkingSpot \<times> real) list" where
  "spots_with_distance pf user_lat user_lon [] = Inr []"
| "spots_with_distance pf user_lat user_lon (spot # queryset) =
     (case calculate_distance pf (PyStr user_lat) (PyStr user_lon)
             (Decimal (latitude spot)) (Decimal (longitude spot)) of
        Inl e \<Rightarrow> Inl e
      | Inr distance \<Rightarrow>
          (case spots_with_distance pf user_lat user_lon queryset of
             Inl e \<Rightarrow> Inl e
           | Inr rest \<Rightarrow> Inr ((spot, distance) # rest)))"

text \<open>
  \<open>pd\<close> is the conversion of the \<open>max_price\<close> string to the \<open>Decimal\<close> the
  \<open>price_per_hour__lte\<close> lookup compares with (\<open>None\<close> where it raises
  \<open>ValidationError\<close>). \<open>list.sort(key=...)\<close> is stable, as \<open>sort_key\<close> is.
\<close>

definition get_queryset_s :: "(string \<Rightarrow> real option) \<Rightarrow> (string \<Rightarrow> rat option) \<Rightarrow> request
    \<Rightarrow> ParkingSpot list \<Rightarrow> py_error + spots" where
  "get_queryset_s pf pd req objects =
     (let max_price = query_params req ''max_price'';
          priced = (if truthy max_price
                    then (case pd (the max_price) of
                            None \<Rightarrow> Inl ValidationError
                          | Some m \<Rightarrow> Inr (filter (\<lambda>s. price_per_hour s \<le> m) objects))
                    else Inr objects)
      in case priced of
           Inl e \<Rightarrow> Inl e
         | Inr queryset \<Rightarrow>
             (let available_only = query_params req ''available_only'';
                  queryset = (if available_only = Some ''true''
                              then filter (\<lambda>s. is_occupied s = False \<and> is_disabled s = False) queryset
                              else queryset);
                  user_lat = query_params req ''lat'';
                  user_lon = query_params req ''lon''
              in if truthy user_lat \<and> truthy user_lon then
                   (case spots_with_distance pf (the user_lat) (the user_lon) queryset of
                      Inl e \<Rightarrow> Inl e
                    | Inr l \<Rightarrow> Inr (PyList (sort_key snd l)))
                 else Inr (QuerySet queryset)))"

text \<open>The loop of \<open>nearby\<close>: the spots within the radius, each with its distance.\<close>

fun nearby_spots :: "(string \<Rightarrow> real option) \<Rightarrow> string \<Rightarrow> string \<Rightarrow> real \<Rightarrow> ParkingSpot list
    \<Rightarrow> py_error + (ParkingSpot \<times> real) list" where
  "nearby_spots pf lat lon radius [] = Inr []"
| "nearby_spots pf lat lon radius (spot # spots) =
     (case calculate_distance pf (PyStr lat) (PyStr lon)
             (Decimal (latitude spot)) (Decimal (longitude spot)) of
        Inl e \<Rightarrow> Inl e
      | Inr distance \<Rightarrow>
          (case nearby_spots pf lat lon radius spots of
             Inl e \<Rightarrow> Inl e
           | Inr rest \<Rightarrow> Inr (if distance \<le> radius then (spot, distance) # rest else rest)))"

text \<open>
  \<open>nearby\<close>. \<open>.filter(...)\<close> is a method of a \<open>QuerySet\<close>; a Python list has no such
  attribute.
\<close>

definition nearby :: "(string \<Rightarrow> real option) \<Rightarrow> (string \<Rightarrow> rat option) \<Rightarrow> request \<Rightarrow> ParkingSpot list
    \<Rightarrow> py_error + (ParkingSpot \<times> real) list response" where
  "nearby pf pd req objects =
     (let lat = query_params req ''lat'';
          lon = query_params req ''lon''
      in case (case query_params req ''radius'' of None \<Rightarrow> Some 5000 | Some r \<Rightarrow> pf r) of
           None \<Rightarrow> Inl ValueError
         | Some radius \<Rightarrow>
             if \<not> truthy lat \<or> \<not> truthy lon then
               Inr (Response (Dict [(''error'', ''Latitude and longitude required'')]) 400)
             else
               (case get_queryset_s pf pd req objects of
                  Inl e \<Rightarrow> Inl e
                | Inr (PyList l) \<Rightarrow> Inl AttributeError
                | Inr (QuerySet queryset) \<Rightarrow>
                    (let spots = filter (\<lambda>s. is_occupied s = False \<and> is_disabled s = False) queryset
                     in case nearby_spots pf (the lat) (the lon) radius spots of
                          Inl e \<Rightarrow> Inl e
                        | Inr found \<Rightarrow> Inr (Response (Serialized (sort_key snd found)) 200))))"

text \<open>
  \<open>get_object()\<close> looks the primary key up in the queryset of \<open>get_queryset\<close>; the
  filter backends of the view set need a \<open>QuerySet\<close> and fail on a list.
\<close>

definition get_object_s :: "(string \<Rightarrow> real option) \<Rightarrow> (string \<Rightarrow> rat option) \<Rightarrow> request
    \<Rightarrow> ParkingSpot list \<Rightarrow> uuid \<Rightarrow> py_error + ParkingSpot" where
  "get_object_s pf pd req objects pk =
     (case get_queryset_s pf pd req objects of
        Inl e \<Rightarrow> Inl e
      | Inr (PyList l) \<Rightarrow> Inl AttributeError
      | Inr (QuerySet queryset) \<Rightarrow>
          (case find (\<lambda>s. id_s s = pk) queryset of
             None \<Rightarrow> Inl Http404
           | Some spot \<Rightarrow> Inr spot))"

definition toggle_occupancy :: "(string \<Rightarrow> real option) \<Rightarrow> (string \<Rightarrow> rat option) \<Rightarrow> request
    \<Rightarrow> datetime \<Rightarrow> ParkingSpot list \<Rightarrow> uuid
    \<Rightarrow> py_error + (ParkingSpot response \<times> ParkingSpot list)" where
  "toggle_occupancy pf pd req ts objects pk =
     (case get_object_s pf pd req objects pk of
        Inl e \<Rightarrow> Inl e
      | Inr spot \<Rightarrow>
          (let spot = spot\<lparr>is_occupied := \<not> is_occupied spot\<rparr>;
               (spot, objects) = save_spot ts spot objects
           in Inr (Response (Dict [(''status'', if is_occupied spot then ''occupied'' else ''available'')]) 200,
                   objects)))"

section \<open>Notions used in the statements\<close>

text \<open>
  A booking is visible to a request when \<open>get_queryset\<close> keeps it: it is the caller's
  own or the caller is staff, and with the host filter it is a booking of an owned spot.
\<close>

definition visible :: "request \<Rightarrow> uuid list \<Rightarrow> BookingSession \<Rightarrow> bool" where
  "visible req owned b =
     ((is_staff (req_user req) \<or> user b = id_u (req_user req)) \<and>
      (query_params req ''host_spots'' = Some ''true'' \<and> is_host (req_user req) \<longrightarrow> spot_id b \<in> set owned))"

text \<open>Whether a string occurs in another (Python's \<open>in\<close>), and in a value of an error dictionary.\<close>

fun startswith :: "string \<Rightarrow> string \<Rightarrow> bool" where
  "startswith s [] = True"
| "startswith [] (c # p) = False"
| "startswith (d # s) (c # p) = (d = c \<and> startswith s p)"

fun contains :: "string \<Rightarrow> string \<Rightarrow> bool" where
  "contains [] p = (p = [])"
| "contains (c # s) p = (startswith (c # s) p \<or> contains s p)"

fun mentions :: "string \<Rightarrow> 'a response \<Rightarrow> bool" where
  "mentions p (Response (Dict kvs) code) = list_ex (\<lambda>kv. contains (snd kv) p) kvs"
| "mentions p (Response (Serialized x) code) = False"
| "mentions p (Response (Errors fs) code) = False"

subsection \<open>Sample data\<close>

text \<open>
  A driver, a staff member, a request of a user with a given body and no query string,
  and a two-hour booking of the driver (times in microseconds) in a given status.
\<close>

definition driver :: User where
  "driver = \<lparr>id_u = 7, is_staff = False, is_host = False\<rparr>"

definition staff :: User where
  "staff = \<lparr>id_u = 2, is_staff = True, is_host = False\<rparr>"

definition req_of :: "User \<Rightarrow> (string \<rightharpoonup> field_value) \<Rightarrow> request" where
  "req_of u d = \<lparr>req_user = u, query_params = Map.empty, data = d\<rparr>"

definition booking0 :: "string \<Rightarrow> BookingSession" where
  "booking0 s = \<lparr>id_b = 11, user = 7, spot_id = 3, spot_type = ''parking_spot'', booking_time = 0,
     scheduled_start_time = 300000000, actual_start_time = None,
     scheduled_end_time = 7500000000, actual_end_time = None,
     duration = Decimal 2, total_cost = Decimal 118, overstay_fee = None,
     status = s, access_code = Some ''123456'', created_at = 0, updated_at = 0\<rparr>"

subsection \<open>Creating a booking\<close>

text \<open>
  \<open>Meta.fields\<close> of \<open>BookingSessionCreateSerializer\<close>, and the body of a request
  that books spot 3 for two hours.
\<close>

definition create_fields :: "string list" where
  "create_fields = [''spot_id'', ''spot_type'', ''scheduled_start_time'', ''scheduled_end_time'',
     ''duration'', ''total_cost'', ''access_code'']"

definition booking_data :: "string \<rightharpoonup> field_value" where
  "booking_data = [''spot_id'' \<mapsto> UUIDValue 3, ''spot_type'' \<mapsto> CharValue ''parking_spot'',
     ''scheduled_start_time'' \<mapsto> DateTimeValue 300000000,
     ''scheduled_end_time'' \<mapsto> DateTimeValue 7500000000,
     ''duration'' \<mapsto> DecimalValue 2, ''total_cost'' \<mapsto> DecimalValue 118,
     ''access_code'' \<mapsto> CharValue ''123456'']"

subsection \<open>The lifecycle invariant\<close>

text \<open>
  The tables a history goes through, from the empty table to the last one, and whether a
  booking has reached the status \<open>active\<close> in one of them.
\<close>

definition states :: "booking_op list \<Rightarrow> BookingSession list list" where
  "states ops = map (\<lambda>n. run (take n ops)) [0..<Suc (length ops)]"

definition reached_active :: "booking_op list \<Rightarrow> uuid \<Rightarrow> bool" where
  "reached_active ops pk =
     list_ex (\<lambda>objects. list_ex (\<lambda>b. id_b b = pk \<and> status b = ''active'') objects) (states ops)"

text \<open>
  The invariant of the data model: \<open>actual_start_time\<close> is set if and only if the booking
  has reached \<open>active\<close>, and \<open>actual_end_time\<close> is set if and only if its status is
  \<open>completed\<close>.
\<close>

definition lifecycle_invariant :: "booking_op list \<Rightarrow> BookingSession \<Rightarrow> bool" where
  "lifecycle_invariant ops b =
     (((actual_start_time b \<noteq> None) = reached_active ops (id_b b)) \<and>
      ((actual_end_time b \<noteq> None) = (status b = ''completed'')))"

text \<open>
  Two histories: a booking is created and a \<open>PATCH\<close> sets its status to \<open>active\<close>; a
  booking is created, started, ended before its scheduled end.
\<close>

definition patched :: "booking_op list" where
  "patched = [Create (req_of driver booking_data) 11 0,
              Update True (req_of driver [''status'' \<mapsto> CharValue ''active'']) [] 5 11]"

definition parked :: "booking_op list" where
  "parked = [Create (req_of driver booking_data) 11 0,
             Start (req_of driver Map.empty) [] 400000000 400000001 11,
             End (req_of driver Map.empty) [] 7000000000 7000000001 11]"

text \<open>What one request other than an update does to the table.\<close>

definition transition :: "BookingSession \<Rightarrow> BookingSession \<Rightarrow> bool" where
  "transition b b' =
     (id_b b' = id_b b \<and>
      ((status b = ''confirmed'' \<and> status b' = ''active'' \<and> actual_start_time b' \<noteq> None \<and>
          actual_end_time b' = actual_end_time b) \<or>
       (status b = ''active'' \<and> status b' = ''completed'' \<and> actual_end_time b' \<noteq> None \<and>
          actual_start_time b' = actual_start_time b) \<or>
       (status b \<noteq> ''completed'' \<and> status b' = ''cancelled'' \<and>
          actual_start_time b' = actual_start_time b \<and> actual_end_time b' = actual_end_time b)))"

text \<open>No request removes a row: an identifier seen in an earlier table is in the last one.\<close>

definition ids_kept :: "booking_op list \<Rightarrow> bool" where
  "ids_kept ops =
     (\<forall>objects \<in> set (states ops). \<forall>r \<in> set objects. \<exists>r' \<in> set (run ops). id_b r' = id_b r)"

subsection \<open>Disputes\<close>

text \<open>
  The status of the dispute with a given primary key in a table, the table a request
  leaves behind (a request that raises leaves the table as it was), and a sample dispute
  about the driver's booking.
\<close>

definition status_of :: "DisputeReport list \<Rightarrow> uuid \<Rightarrow> string option" where
  "status_of objects pk = map_option status_d (find (\<lambda>d. id_d d = pk) objects)"

definition table_after :: "dispute_result \<Rightarrow> DisputeReport list \<Rightarrow> DisputeReport list" where
  "table_after result objects = (case result of Inl e \<Rightarrow> objects | Inr (r, objects') \<Rightarrow> objects')"

definition dispute0 :: "string \<Rightarrow> DisputeReport" where
  "dispute0 s = \<lparr>id_d = 21, booking = 11, reason = ''Spot was blocked'',
     description = ''Another car was parked in the spot'', photo_urls = [], status_d = s,
     created_at_d = 0, resolved_at = None, resolution = None\<rparr>"

subsection \<open>Parking spots\<close>

text \<open>
  A spot whose \<open>updated_at\<close> is 0, with a given occupancy, and parsers for the two
  numbers that occur in the sample requests.
\<close>

definition spot0 :: "bool \<Rightarrow> ParkingSpot" where
  "spot0 occ = \<lparr>id_s = 3, owner = 8, address = ''123 Test Street, Delhi'',
     latitude = 285285 / 10000, longitude = 772182 / 10000, spot_type_s = ''private_driveway'',
     price_per_hour = 50, daily_rate = Some 400, monthly_rate = None,
     has_cctv = True, is_covered = True, has_ev_charging = False, is_accessible = False,
     is_24_hours = True, has_insurance = False, has_valet_service = False, has_car_wash = False,
     has_security_guard = False, has_water_access = False, is_occupied = occ, is_disabled = False,
     rating = 0, review_count = 0, access_pin = Some ''123456'', created_at_s = 0, updated_at_s = 0\<rparr>"

definition float0 :: "string \<Rightarrow> real option" where
  "float0 s = (if s = ''28.6139'' then Some (286139 / 10000)
               else if s = ''77.2090'' then Some (772090 / 10000)
               else if s = ''5000'' then Some 5000
               else None)"

definition decimal0 :: "string \<Rightarrow> rat option" where
  "decimal0 s = None"

subsection \<open>The example of the distance function\<close>

text \<open>
  The haversine term \<open>a\<close> for the query point (28.6139, 77.2090) and the candidate
  (28.5285, 77.2182), and the request of the repository's API test for the spots near the
  query point.
\<close>

definition example_a :: real where
  "example_a = (sin ((radians 28.5285 - radians 28.6139) / 2))\<^sup>2 +
      cos (radians 28.6139) * cos (radians 28.5285) * (sin ((radians 77.2182 - radians 77.2090) / 2))\<^sup>2"

definition nearby_request :: request where
  "nearby_request = \<lparr>req_user = driver,
     query_params = [''lat'' \<mapsto> ''28.6139'', ''lon'' \<mapsto> ''77.2090'', ''radius'' \<mapsto> ''5000''],
     data = Map.empty\<rparr>"

section \<open>The booking lifecycle\<close>

subsection \<open>Looking a booking up and saving it\<close>

lemma get_queryset_filter: "get_queryset req owned objects = filter (visible req owned) objects"
  unfolding get_queryset_def Let_def visible_def
  by (auto intro: filter_cong)

lemma get_object_find:
  "get_object req owned objects pk = find (\<lambda>b. id_b b = pk \<and> visible req owned b) objects"
  unfolding get_object_def get_queryset_filter
  by (induction objects) auto

lemma find_SomeD: "find P xs = Some x \<Longrightarrow> x \<in> set xs \<and> P x"
  by (induction xs) (auto split: if_splits)

lemma get_object_SomeD:
  "get_object req owned objects pk = Some b \<Longrightarrow> b \<in> set objects \<and> id_b b = pk \<and> visible req owned b"
  unfolding get_object_find by (drule find_SomeD) simp

lemma get_object_saved:
  assumes "get_object req owned objects pk = Some b"
    and "id_b b' = pk" and "visible req owned b'"
  shows "get_object req owned (map (\<lambda>r. if id_b r = pk then b' else r) objects) pk = Some b'"
  using assms unfolding get_object_find
  by (induction objects) (auto split: if_splits)

lemma save_booking_existing:
  assumes "b \<in> set objects" "id_b b = id_b b'"
  shows "save_booking ts b' objects =
     (b'\<lparr>updated_at := ts\<rparr>, map (\<lambda>r. if id_b r = id_b b' then b'\<lparr>updated_at := ts\<rparr> else r) objects)"
  using assms unfolding save_booking_def Let_def by auto

lemma get_object_booking0 [simp]:
  "get_object (req_of driver d) [] [booking0 s] 11 = Some (booking0 s)"
  by (simp add: get_object_def get_queryset_def req_of_def driver_def booking0_def)

subsection \<open>\<open>start\<close>\<close>



subsection \<open>Rejected transitions\<close>




subsection \<open>\<open>cancel\<close>\<close>



subsection \<open>\<open>end\<close> with an overstay\<close>

text \<open>
  The fee the action computes for an overstay of 10, 16 and 46 minutes is 0, 20 and 60.
  But whenever \<open>end\<close> reaches the overstay branch on a booking read from the table,
  whose \<open>total_cost\<close> is a \<open>Decimal\<close>, the addition of the float fee raises
  \<open>TypeError\<close> before the booking is saved.
\<close>

lemma overstay_fee_examples:
  "floordiv (total_seconds (10 * 60000000) / 60) 15 * 20 = 0"
  "floordiv (total_seconds (16 * 60000000) / 60) 15 * 20 = 20"
  "floordiv (total_seconds (46 * 60000000) / 60) 15 * 20 = 60"
  by (simp_all add: floordiv_def total_seconds_def)

lemma end_overstay_raises:
  assumes "get_object req owned objects pk = Some b"
    and "status b = ''active''" and "total_cost b = Decimal c" and "scheduled_end_time b < now"
  shows "end_booking req owned now ts objects pk = Inl TypeError"
  using assms by (simp add: end_booking_def Let_def)

text \<open>
  C1 fails on the code. The driver's active booking is scheduled to end at 7500 s and is
  ended 16 minutes later: the claim promises a completed booking with an overstay fee of
  20 added to the total cost, the action raises \<open>TypeError\<close> and nothing is saved.
\<close>

theorem end_overstay_type_error:
  "end_booking (req_of driver Map.empty) [] (7500000000 + 16 * 60000000) (7500000000 + 16 * 60000000 + 1)
     [(booking0 ''active'')\<lparr>actual_start_time := Some 300000000\<rparr>] 11 = Inl TypeError"
  by (simp add: end_booking_def get_object_def get_queryset_def req_of_def driver_def booking0_def Let_def)

section \<open>Creating a booking\<close>

lemma create_errors_cong:
  assumes "\<forall>k \<in> set create_fields. d k = d' k"
  shows "create_errors d = create_errors d'"
  using assms by (simp add: create_errors_def create_fields_def)

lemma create_validated_cong:
  assumes "\<forall>k \<in> set create_fields. d k = d' k"
  shows "create_validated d = create_validated d'"
  using assms create_errors_cong [OF assms]
  by (simp add: create_validated_def create_fields_def split: option.splits)

lemma create_SomeD:
  assumes "create req new_id ts vd objects = Inr (b, objects')"
  shows "status b = ''confirmed'' \<and> actual_start_time b = None \<and> actual_end_time b = None \<and>
         overstay_fee b = None \<and> objects' = objects @ [b]"
  using assms by (auto simp: create_def objects_create_def Let_def split: if_splits)

text \<open>
  C9. Every booking the create operation produces has status \<open>confirmed\<close> and no
  \<open>actual_start_time\<close>, \<open>actual_end_time\<close> or \<open>overstay_fee\<close>; it is answered with
  201 and appended to the table. A \<open>status\<close> the client puts into the request changes
  nothing: the operation behaves as on the request without it.
\<close>

theorem created_booking_confirmed:
  assumes "create_booking req new_id ts objects = Inr (Response (Serialized b) code, objects')"
  shows "status b = ''confirmed'' \<and> actual_start_time b = None \<and> actual_end_time b = None \<and>
         overstay_fee b = None \<and> code = 201 \<and> objects' = objects @ [b] \<and>
         (\<forall>v. create_booking (req\<lparr>data := (data req)(''status'' \<mapsto> v)\<rparr>) new_id ts objects
                = create_booking req new_id ts objects)"
proof -
  from assms obtain vd where vd: "create_validated (data req) = Inr vd"
    by (auto simp: create_booking_def split: sum.splits)
  with assms have "create req new_id ts vd objects = Inr (b, objects')" and "code = 201"
    by (auto simp: create_booking_def split: sum.splits prod.splits)
  moreover have "create_booking (req\<lparr>data := (data req)(''status'' \<mapsto> v)\<rparr>) new_id ts objects
                = create_booking req new_id ts objects" for v
  proof -
    have "create_validated ((data req)(''status'' \<mapsto> v)) = create_validated (data req)"
      by (rule create_validated_cong) (simp add: create_fields_def)
    then show ?thesis by (simp add: create_booking_def create_def split: sum.splits)
  qed
  ultimately show ?thesis using create_SomeD by blast
qed

theorem created_booking_confirmed_witness:
  "create_booking (req_of driver (booking_data(''status'' \<mapsto> CharValue ''completed''))) 11 0 [] =
     Inr (Response (Serialized (booking0 ''confirmed'')) 201, [booking0 ''confirmed'']) \<and>
   status (booking0 ''confirmed'') = ''confirmed'' \<and>
   actual_start_time (booking0 ''confirmed'') = None \<and>
   actual_end_time (booking0 ''confirmed'') = None \<and>
   overstay_fee (booking0 ''confirmed'') = None \<and>
   create_booking (req_of driver (booking_data(''status'' \<mapsto> CharValue ''completed''))) 11 0 [] =
     create_booking (req_of driver booking_data) 11 0 []"
proof -
  have run: "create_booking (req_of driver (booking_data(''status'' \<mapsto> CharValue ''completed''))) 11 0 [] =
     Inr (Response (Serialized (booking0 ''confirmed'')) 201, [booking0 ''confirmed''])"
    by (simp add: create_booking_def create_validated_def create_def objects_create_def
        req_of_def driver_def booking_data_def booking0_def Let_def)
  have same: "(req_of driver booking_data)\<lparr>data := (data (req_of driver booking_data))(''status'' \<mapsto> CharValue ''completed'')\<rparr>
      = req_of driver (booking_data(''status'' \<mapsto> CharValue ''completed''))"
    by (simp add: req_of_def)
  have run0: "create_booking (req_of driver booking_data) 11 0 [] =
     Inr (Response (Serialized (booking0 ''confirmed'')) 201, [booking0 ''confirmed''])"
    by (simp add: create_booking_def create_validated_def create_def objects_create_def
        req_of_def driver_def booking_data_def booking0_def Let_def)
  from created_booking_confirmed [OF run0]
  have "create_booking ((req_of driver booking_data)\<lparr>data :=
            (data (req_of driver booking_data))(''status'' \<mapsto> CharValue ''completed'')\<rparr>) 11 0 []
          = create_booking (req_of driver booking_data) 11 0 []"
    by blast
  then have "create_booking (req_of driver (booking_data(''status'' \<mapsto> CharValue ''completed''))) 11 0 []
          = create_booking (req_of driver booking_data) 11 0 []"
    by (simp only: same)
  with run created_booking_confirmed [OF run] show ?thesis by blast
qed

section \<open>The lifecycle invariant\<close>

lemma states_snoc: "states (ops @ [op]) = states ops @ [run (ops @ [op])]"
  by (simp add: states_def)

lemma run_snoc: "run (ops @ [op]) = step (run ops) op"
  by (simp add: run_def)

lemma reached_active_snoc:
  "reached_active (ops @ [op]) pk =
     (reached_active ops pk \<or> (\<exists>b \<in> set (run (ops @ [op])). id_b b = pk \<and> status b = ''active''))"
  by (auto simp: reached_active_def states_snoc list_ex_iff)

lemma run_in_states: "run ops \<in> set (states ops)"
proof (cases ops rule: rev_cases)
  case Nil
  then show ?thesis by (simp add: states_def)
next
  case (snoc ys y)
  then show ?thesis by (simp add: states_snoc)
qed

lemma active_now_reached:
  "b \<in> set (run ops) \<Longrightarrow> status b = ''active'' \<Longrightarrow> reached_active ops (id_b b)"
  using run_in_states [of ops] by (auto simp: reached_active_def list_ex_iff)



lemma create_booking_cases:
  "step objects (Create req new_id ts) = objects \<or>
   (\<exists>b. step objects (Create req new_id ts) = objects @ [b] \<and> (\<forall>r \<in> set objects. id_b r \<noteq> id_b b) \<and>
        status b = ''confirmed'' \<and> actual_start_time b = None \<and> actual_end_time b = None)"
  by (auto simp: step_def create_booking_def create_def objects_create_def Let_def
      split: sum.splits option.splits if_splits)

lemma start_cases:
  "step objects (Start req owned now ts pk) = objects \<or>
   (\<exists>b b'. b \<in> set objects \<and> transition b b' \<and>
        step objects (Start req owned now ts pk) = map (\<lambda>r. if id_b r = id_b b then b' else r) objects)"
proof (cases "get_object req owned objects pk")
  case None
  then show ?thesis by (simp add: step_def start_def)
next
  case (Some b)
  then have mem: "b \<in> set objects" and pk: "id_b b = pk"
    using get_object_SomeD by blast+
  show ?thesis
  proof (cases "status b = ''confirmed''")
    case False
    with Some show ?thesis by (simp add: step_def start_def)
  next
    case True
    let ?b' = "b\<lparr>actual_start_time := Some now, status := ''active'', updated_at := ts\<rparr>"
    have "step objects (Start req owned now ts pk) = map (\<lambda>r. if id_b r = id_b b then ?b' else r) objects"
      using Some True pk save_booking_existing [OF mem, of "b\<lparr>actual_start_time := Some now, status := ''active''\<rparr>" ts]
      by (simp add: step_def start_def)
    moreover have "transition b ?b'" using True by (simp add: transition_def)
    ultimately show ?thesis using mem by blast
  qed
qed

lemma cancel_cases:
  "step objects (Cancel req owned ts pk) = objects \<or>
   (\<exists>b b'. b \<in> set objects \<and> transition b b' \<and>
        step objects (Cancel req owned ts pk) = map (\<lambda>r. if id_b r = id_b b then b' else r) objects)"
proof (cases "get_object req owned objects pk")
  case None
  then show ?thesis by (simp add: step_def cancel_def)
next
  case (Some b)
  then have mem: "b \<in> set objects" and pk: "id_b b = pk"
    using get_object_SomeD by blast+
  show ?thesis
  proof (cases "status b = ''completed'' \<or> status b = ''cancelled''")
    case True
    with Some show ?thesis by (auto simp: step_def cancel_def)
  next
    case False
    let ?b' = "b\<lparr>status := ''cancelled'', updated_at := ts\<rparr>"
    have "step objects (Cancel req owned ts pk) = map (\<lambda>r. if id_b r = id_b b then ?b' else r) objects"
      using Some False pk save_booking_existing [OF mem, of "b\<lparr>status := ''cancelled''\<rparr>" ts]
      by (simp add: step_def cancel_def)
    moreover have "transition b ?b'" using False by (simp add: transition_def)
    ultimately show ?thesis using mem by blast
  qed
qed

lemma end_cases:
  "step objects (End req owned now ts pk) = objects \<or>
   (\<exists>b b'. b \<in> set objects \<and> transition b b' \<and>
        step objects (End req owned now ts pk) = map (\<lambda>r. if id_b r = id_b b then b' else r) objects)"
proof (cases "get_object req owned objects pk")
  case None
  then show ?thesis by (simp add: step_def end_booking_def)
next
  case (Some b)
  then have mem: "b \<in> set objects" and pk: "id_b b = pk"
    using get_object_SomeD by blast+
  show ?thesis
  proof (cases "status b = ''active''")
    case False
    with Some show ?thesis by (simp add: step_def end_booking_def)
  next
    case True
    let ?b1 = "b\<lparr>actual_end_time := Some now, status := ''completed''\<rparr>"
    let ?fee = "PyFloat (floordiv (total_seconds (now - scheduled_end_time b) / 60) 15 * 20)"
    show ?thesis
    proof (cases "scheduled_end_time b < now")
      case False
      have "step objects (End req owned now ts pk) =
              map (\<lambda>r. if id_b r = id_b b then ?b1\<lparr>updated_at := ts\<rparr> else r) objects"
        using Some True False pk save_booking_existing [OF mem, of ?b1 ts]
        by (simp add: step_def end_booking_def Let_def)
      moreover have "transition b (?b1\<lparr>updated_at := ts\<rparr>)" using True by (simp add: transition_def)
      ultimately show ?thesis using mem by blast
    next
      case late: True
      show ?thesis
      proof (cases "py_add (total_cost b) ?fee")
        case (Inl e)
        with Some True late show ?thesis by (simp add: step_def end_booking_def Let_def)
      next
        case (Inr cost)
        let ?b2 = "?b1\<lparr>overstay_fee := Some ?fee, total_cost := cost\<rparr>"
        have "step objects (End req owned now ts pk) =
                map (\<lambda>r. if id_b r = id_b b then ?b2\<lparr>updated_at := ts\<rparr> else r) objects"
          using Some True late Inr pk save_booking_existing [OF mem, of ?b2 ts]
          by (simp add: step_def end_booking_def Let_def)
        moreover have "transition b (?b2\<lparr>updated_at := ts\<rparr>)" using True by (simp add: transition_def)
        ultimately show ?thesis using mem by blast
      qed
    qed
  qed
qed

lemma step_cases:
  assumes "\<not> is_update op"
  shows "step objects op = objects \<or>
   (\<exists>b. step objects op = objects @ [b] \<and> (\<forall>r \<in> set objects. id_b r \<noteq> id_b b) \<and>
        status b = ''confirmed'' \<and> actual_start_time b = None \<and> actual_end_time b = None) \<or>
   (\<exists>b b'. b \<in> set objects \<and> transition b b' \<and>
        step objects op = map (\<lambda>r. if id_b r = id_b b then b' else r) objects)"
proof (cases op)
  case (Create req new_id ts)
  then show ?thesis using create_booking_cases [of objects req new_id ts] by blast
next
  case (Start req owned now ts pk)
  then show ?thesis using start_cases [of objects req owned now ts pk] by blast
next
  case (End req owned now ts pk)
  then show ?thesis using end_cases [of objects req owned now ts pk] by blast
next
  case (Cancel req owned ts pk)
  then show ?thesis using cancel_cases [of objects req owned ts pk] by blast
next
  case (Update partial req owned ts pk)
  with assms show ?thesis by simp
qed


lemma reached_active_has_id:
  assumes "ids_kept ops" and "reached_active ops pk"
  shows "\<exists>r \<in> set (run ops). id_b r = pk"
  using assms unfolding ids_kept_def reached_active_def list_ex_iff by blast

lemma invariant_step:
  assumes noup: "\<not> is_update op"
    and kept: "ids_kept ops"
    and inv: "\<forall>b \<in> set (run ops). lifecycle_invariant ops b"
  shows "ids_kept (ops @ [op]) \<and> (\<forall>b \<in> set (run (ops @ [op])). lifecycle_invariant (ops @ [op]) b)"
proof -
  let ?old = "run ops" and ?new = "run (ops @ [op])"
  have new: "?new = step ?old op" by (rule run_snoc)
  have old_active: "reached_active ops (id_b b)" if "b \<in> set ?old" "status b = ''active''" for b
    using that by (rule active_now_reached)
  from step_cases [OF noup, of ?old]
  consider (same) "?new = ?old"
    | (added) b where "?new = ?old @ [b]" "\<forall>r \<in> set ?old. id_b r \<noteq> id_b b"
        "status b = ''confirmed''" "actual_start_time b = None" "actual_end_time b = None"
    | (changed) b b' where "b \<in> set ?old" "transition b b'"
        "?new = map (\<lambda>r. if id_b r = id_b b then b' else r) ?old"
    unfolding new by blast
  then show ?thesis
  proof cases
    case same
    have "ids_kept (ops @ [op])"
      using kept same unfolding ids_kept_def states_snoc by auto
    moreover have "lifecycle_invariant (ops @ [op]) b" if "b \<in> set ?new" for b
    proof -
      from that same have b: "b \<in> set ?old" by simp
      have "reached_active (ops @ [op]) (id_b b) = reached_active ops (id_b b)"
        unfolding reached_active_snoc same using old_active by metis
      with inv b show ?thesis by (simp add: lifecycle_invariant_def)
    qed
    ultimately show ?thesis by blast
  next
    case added
    have "ids_kept (ops @ [op])"
      using kept added(1) unfolding ids_kept_def states_snoc by auto
    moreover have "lifecycle_invariant (ops @ [op]) r" if "r \<in> set ?new" for r
    proof (cases "r \<in> set ?old")
      case True
      have "reached_active (ops @ [op]) (id_b r) = reached_active ops (id_b r)"
        unfolding reached_active_snoc added(1) using old_active added(3) by (auto, metis)
      with inv True show ?thesis by (simp add: lifecycle_invariant_def)
    next
      case False
      with that added(1) have r: "r = b" by simp
      have "\<not> reached_active ops (id_b b)"
        using reached_active_has_id [OF kept] added(2) by blast
      then have "\<not> reached_active (ops @ [op]) (id_b b)"
        unfolding reached_active_snoc added(1) using added(2,3) by auto
      with added(3,4,5) r show ?thesis by (simp add: lifecycle_invariant_def)
    qed
    ultimately show ?thesis by blast
  next
    case changed
    from changed(2) have id: "id_b b' = id_b b" by (simp add: transition_def)
    have in_new: "r = b' \<or> (r \<in> set ?old \<and> id_b r \<noteq> id_b b)" if "r \<in> set ?new" for r
      using that unfolding changed(3) by (auto split: if_splits)
    have "\<exists>r' \<in> set ?new. id_b r' = id_b r" if "r \<in> set ?old" for r
    proof -
      let ?r' = "if id_b r = id_b b then b' else r"
      have "?r' \<in> set ?new" unfolding changed(3) using that by simp
      moreover have "id_b ?r' = id_b r" using id by simp
      ultimately show ?thesis by blast
    qed
    then have "ids_kept (ops @ [op])"
      using kept unfolding ids_kept_def states_snoc by (simp add: Ball_def Bex_def) metis
    moreover have "lifecycle_invariant (ops @ [op]) r" if "r \<in> set ?new" for r
    proof -
      from in_new [OF that] show ?thesis
      proof
        assume r: "r = b'"
        have now: "(\<exists>x \<in> set ?new. id_b x = id_b b' \<and> status x = ''active'') = (status b' = ''active'')"
          using in_new that r id by auto
        have invb: "lifecycle_invariant ops b" using inv changed(1) by blast
        have act: "status b = ''active'' \<Longrightarrow> reached_active ops (id_b b)"
          using old_active changed(1) by blast
        show ?thesis
          using changed(2) invb act unfolding r lifecycle_invariant_def reached_active_snoc now transition_def
          by auto
      next
        assume r: "r \<in> set ?old \<and> id_b r \<noteq> id_b b"
        have "reached_active (ops @ [op]) (id_b r) = reached_active ops (id_b r)"
          unfolding reached_active_snoc using in_new old_active r id by metis
        with inv r show ?thesis by (simp add: lifecycle_invariant_def)
      qed
    qed
    ultimately show ?thesis by blast
  qed
qed

lemma invariant_run:
  "(\<forall>op \<in> set ops. \<not> is_update op) \<Longrightarrow>
     ids_kept ops \<and> (\<forall>b \<in> set (run ops). lifecycle_invariant ops b)"
proof (induction ops rule: rev_induct)
  case Nil
  show ?case by (simp add: ids_kept_def states_def run_def)
next
  case (snoc op ops)
  then show ?case using invariant_step [of op ops] by simp
qed


text \<open>
  C4, as the code has it. In every table reachable through create, start, end and cancel
  (without the generic update), \<open>actual_start_time\<close> of a booking is set if and only if
  the booking has reached \<open>active\<close>, and \<open>actual_end_time\<close> is set if and only if its
  status is \<open>completed\<close>.
\<close>

theorem lifecycle_invariant_without_update:
  assumes "\<forall>op \<in> set ops. \<not> is_update op" and "b \<in> set (run ops)"
  shows "lifecycle_invariant ops b"
  using invariant_run [OF assms(1)] assms(2) by blast

lemma create_booking0:
  "create_booking (req_of driver booking_data) 11 0 [] =
     Inr (Response (Serialized (booking0 ''confirmed'')) 201, [booking0 ''confirmed''])"
  by (simp add: create_booking_def create_validated_def create_def objects_create_def
      req_of_def driver_def booking_data_def booking0_def Let_def)

lemma run_parked:
  "run parked = [(booking0 ''confirmed'')\<lparr>actual_start_time := Some 400000000,
      status := ''completed'', updated_at := 7000000001, actual_end_time := Some 7000000000\<rparr>]"
proof -
  let ?b1 = "(booking0 ''confirmed'')\<lparr>actual_start_time := Some 400000000, status := ''active'',
      updated_at := 400000001\<rparr>"
  have s1: "step [] (Create (req_of driver booking_data) 11 0) = [booking0 ''confirmed'']"
    by (simp add: step_def create_booking0)
  have s2: "step [booking0 ''confirmed''] (Start (req_of driver Map.empty) [] 400000000 400000001 11) = [?b1]"
    by (simp add: step_def start_def save_booking_def Let_def) (simp add: booking0_def)
  have g: "get_object (req_of driver Map.empty) [] [?b1] 11 = Some ?b1"
    by (simp add: get_object_def get_queryset_def req_of_def driver_def booking0_def)
  have s3: "step [?b1] (End (req_of driver Map.empty) [] 7000000000 7000000001 11) =
      [(booking0 ''confirmed'')\<lparr>actual_start_time := Some 400000000,
        status := ''completed'', updated_at := 7000000001, actual_end_time := Some 7000000000\<rparr>]"
    by (simp add: step_def end_booking_def g save_booking_def Let_def) (simp add: booking0_def)
  show ?thesis by (simp add: run_def parked_def s1 s2 s3)
qed

theorem lifecycle_invariant_without_update_witness:
  "run parked = [(booking0 ''confirmed'')\<lparr>actual_start_time := Some 400000000,
      status := ''completed'', updated_at := 7000000001, actual_end_time := Some 7000000000\<rparr>] \<and>
   lifecycle_invariant parked ((booking0 ''confirmed'')\<lparr>actual_start_time := Some 400000000,
      status := ''completed'', updated_at := 7000000001, actual_end_time := Some 7000000000\<rparr>)"
proof -
  have "\<forall>op \<in> set parked. \<not> is_update op" by (simp add: parked_def)
  from lifecycle_invariant_without_update [OF this, of "(booking0 ''confirmed'')\<lparr>actual_start_time := Some 400000000,
      status := ''completed'', updated_at := 7000000001, actual_end_time := Some 7000000000\<rparr>"]
  show ?thesis by (simp add: run_parked)
qed

text \<open>
  The claim C4 as stated, with the generic update among the operations, fails: after a
  \<open>PATCH\<close> that sets the status of a new booking to \<open>active\<close> the booking is active and
  has no \<open>actual_start_time\<close>.
\<close>

lemma run_patched: "run patched = [(booking0 ''confirmed'')\<lparr>status := ''active'', updated_at := 5\<rparr>]"
proof -
  have s1: "step [] (Create (req_of driver booking_data) 11 0) = [booking0 ''confirmed'']"
    by (simp add: step_def create_booking0)
  have v: "update_validated True [''status'' \<mapsto> CharValue ''active''] =
      Inr \<lparr>up_actual_start_time = None, up_actual_end_time = None, up_status = Some ''active'',
           up_overstay_fee = None, up_total_cost = None\<rparr>"
    by (simp add: update_validated_def status_ok_def total_cost_ok_def STATUS_CHOICES_def)
  have s2: "step [booking0 ''confirmed'']
      (Update True (req_of driver [''status'' \<mapsto> CharValue ''active'']) [] 5 11) =
      [(booking0 ''confirmed'')\<lparr>status := ''active'', updated_at := 5\<rparr>]"
    by (simp add: step_def update_booking_def)
       (simp add: req_of_def v booking0_def save_booking_def Let_def set_attrs_def)
  show ?thesis by (simp add: run_def patched_def s1 s2)
qed

theorem lifecycle_invariant_counterexample:
  "\<not> (\<forall>b \<in> set (run patched). lifecycle_invariant patched b)"
proof
  let ?b = "(booking0 ''confirmed'')\<lparr>status := ''active'', updated_at := 5\<rparr>"
  assume "\<forall>b \<in> set (run patched). lifecycle_invariant patched b"
  then have "lifecycle_invariant patched ?b" by (simp add: run_patched)
  moreover have "reached_active patched (id_b ?b)"
    by (rule active_now_reached) (simp_all add: run_patched)
  ultimately show False by (simp add: lifecycle_invariant_def booking0_def)
qed

section \<open>Disputes\<close>

lemma get_object_d_staff:
  "is_staff (req_user req) \<Longrightarrow> get_object_d req bookings objects pk = find (\<lambda>d. id_d d = pk) objects"
  by (simp add: get_object_d_def get_queryset_d_def)

lemma find_SomeD_d: "find P xs = Some x \<Longrightarrow> x \<in> set xs \<and> P x"
  by (induction xs) (auto split: if_splits)

lemma find_replaced:
  assumes "find (\<lambda>d. id_d d = pk) objects = Some d" and "id_d d' = pk"
  shows "find (\<lambda>d. id_d d = pk) (map (\<lambda>r. if id_d r = pk then d' else r) objects) = Some d'"
  using assms by (induction objects) (auto split: if_splits)

lemma save_dispute_existing:
  assumes "d \<in> set objects" and "id_d d = id_d d'"
  shows "save_dispute d' objects = map (\<lambda>r. if id_d r = id_d d' then d' else r) objects"
  using assms by (auto simp: save_dispute_def)

lemma resolve_staff:
  assumes "is_staff (req_user req)" and "find (\<lambda>d. id_d d = pk) objects = Some d"
    and "truthy_value (data req ''resolution'')"
  shows "resolve req now bookings objects pk =
     Inr (Response (Serialized (d\<lparr>status_d := ''resolved'', resolution := data req ''resolution'',
                                  resolved_at := Some now\<rparr>)) 200,
          map (\<lambda>r. if id_d r = pk
                    then d\<lparr>status_d := ''resolved'', resolution := data req ''resolution'',
                            resolved_at := Some now\<rparr>
                    else r) objects)"
proof -
  from assms(2) have mem: "d \<in> set objects" and pk: "id_d d = pk"
    using find_SomeD_d by fastforce+
  show ?thesis
    using assms pk
      save_dispute_existing [OF mem, of "d\<lparr>status_d := ''resolved'', resolution := data req ''resolution'',
                                  resolved_at := Some now\<rparr>"]
    by (simp add: resolve_def get_object_d_staff Let_def)
qed





section \<open>Parking spots\<close>

lemma find_SomeD_s: "find P xs = Some x \<Longrightarrow> x \<in> set xs \<and> P x"
  by (induction xs) (auto split: if_splits)

lemma get_queryset_s_subset:
  "get_queryset_s pf pd req objects = Inr (QuerySet q) \<Longrightarrow> set q \<subseteq> set objects"
  by (auto simp: get_queryset_s_def Let_def split: if_splits option.splits sum.splits)

lemma get_object_s_InrD:
  assumes "get_object_s pf pd req objects pk = Inr spot"
  shows "spot \<in> set objects \<and> id_s spot = pk"
proof -
  from assms obtain q where q: "get_queryset_s pf pd req objects = Inr (QuerySet q)"
    and f: "find (\<lambda>s. id_s s = pk) q = Some spot"
    by (auto simp: get_object_s_def split: sum.splits spots.splits option.splits)
  from find_SomeD_s [OF f] get_queryset_s_subset [OF q] show ?thesis by blast
qed

lemma save_spot_existing:
  assumes "s \<in> set objects" and "id_s s = id_s s'"
  shows "save_spot ts s' objects =
     (s'\<lparr>updated_at_s := ts\<rparr>, map (\<lambda>r. if id_s r = id_s s' then s'\<lparr>updated_at_s := ts\<rparr> else r) objects)"
  using assms unfolding save_spot_def Let_def by auto

lemma toggle_occupancy_found:
  assumes "get_object_s pf pd req objects pk = Inr spot"
  shows "toggle_occupancy pf pd req ts objects pk =
     Inr (Response (Dict [(''status'', if is_occupied spot then ''available'' else ''occupied'')]) 200,
          map (\<lambda>r. if id_s r = pk then spot\<lparr>is_occupied := \<not> is_occupied spot, updated_at_s := ts\<rparr> else r)
            objects)"
proof -
  from get_object_s_InrD [OF assms] have mem: "spot \<in> set objects" and pk: "id_s spot = pk" by blast+
  show ?thesis
    using assms pk save_spot_existing [OF mem, of "spot\<lparr>is_occupied := \<not> is_occupied spot\<rparr>" ts]
    by (simp add: toggle_occupancy_def Let_def)
qed

text \<open>
  C10, as the code has it. When two successive calls of \<open>toggle_occupancy\<close> on a spot
  both succeed, the first reports and stores the negation of \<open>is_occupied\<close>, the second
  reports and stores the original value, and in the end the rows of the spot differ from
  the original in \<open>updated_at\<close> only, which is the time of the second save.
\<close>

theorem toggle_twice:
  assumes "toggle_occupancy pf pd req ts objects pk = Inr (r1, objects1)"
    and "toggle_occupancy pf pd req ts' objects1 pk = Inr (r2, objects2)"
  shows "\<exists>spot. get_object_s pf pd req objects pk = Inr spot \<and>
      r1 = Response (Dict [(''status'', if is_occupied spot then ''available'' else ''occupied'')]) 200 \<and>
      objects1 = map (\<lambda>r. if id_s r = pk then spot\<lparr>is_occupied := \<not> is_occupied spot, updated_at_s := ts\<rparr>
                            else r) objects \<and>
      r2 = Response (Dict [(''status'', if is_occupied spot then ''occupied'' else ''available'')]) 200 \<and>
      objects2 = map (\<lambda>r. if id_s r = pk then spot\<lparr>updated_at_s := ts'\<rparr> else r) objects"
proof -
  from assms(1) obtain spot where g1: "get_object_s pf pd req objects pk = Inr spot"
    by (auto simp: toggle_occupancy_def split: sum.splits)
  let ?s1 = "spot\<lparr>is_occupied := \<not> is_occupied spot, updated_at_s := ts\<rparr>"
  from toggle_occupancy_found [OF g1, of ts] assms(1)
  have r1: "r1 = Response (Dict [(''status'', if is_occupied spot then ''available'' else ''occupied'')]) 200"
    and o1: "objects1 = map (\<lambda>r. if id_s r = pk then ?s1 else r) objects"
    by simp_all
  from assms(2) obtain s2 where g2: "get_object_s pf pd req objects1 pk = Inr s2"
    by (auto simp: toggle_occupancy_def split: sum.splits)
  from get_object_s_InrD [OF g2] have "s2 \<in> set objects1" and "id_s s2 = pk" by blast+
  then have s2: "s2 = ?s1" unfolding o1 by (auto split: if_splits)
  from get_object_s_InrD [OF g1] have pk: "id_s spot = pk" by blast
  have restored: "?s1\<lparr>is_occupied := \<not> is_occupied ?s1, updated_at_s := ts'\<rparr> = spot\<lparr>updated_at_s := ts'\<rparr>"
    by simp
  from toggle_occupancy_found [OF g2, of ts'] assms(2)
  have r2: "r2 = Response (Dict [(''status'', if is_occupied s2 then ''available'' else ''occupied'')]) 200"
    and o2: "objects2 = map (\<lambda>r. if id_s r = pk then s2\<lparr>is_occupied := \<not> is_occupied s2, updated_at_s := ts'\<rparr>
                                   else r) objects1"
    by simp_all
  have "objects2 = map (\<lambda>r. if id_s r = pk then spot\<lparr>updated_at_s := ts'\<rparr> else r) objects"
    unfolding o2 s2 restored o1 using pk by (simp add: comp_def)
  moreover have "r2 = Response (Dict [(''status'', if is_occupied spot then ''occupied'' else ''available'')]) 200"
    unfolding r2 s2 by simp
  ultimately show ?thesis using g1 r1 o1 by blast
qed

lemma get_object_s_spot0:
  "get_object_s float0 decimal0 (req_of driver Map.empty) [(spot0 occ)\<lparr>updated_at_s := t\<rparr>] 3
     = Inr ((spot0 occ)\<lparr>updated_at_s := t\<rparr>)"
  by (simp add: get_object_s_def get_queryset_s_def req_of_def spot0_def)

lemma toggle_spot0:
  "toggle_occupancy float0 decimal0 (req_of driver Map.empty) ts [(spot0 occ)\<lparr>updated_at_s := t\<rparr>] 3 =
     Inr (Response (Dict [(''status'', if occ then ''available'' else ''occupied'')]) 200,
          [(spot0 (\<not> occ))\<lparr>updated_at_s := ts\<rparr>])"
  unfolding toggle_occupancy_found [OF get_object_s_spot0]
  by (simp add: spot0_def)

theorem toggle_twice_witness:
  "toggle_occupancy float0 decimal0 (req_of driver Map.empty) 5 [spot0 False] 3 =
     Inr (Response (Dict [(''status'', ''occupied'')]) 200, [(spot0 True)\<lparr>updated_at_s := 5\<rparr>]) \<and>
   toggle_occupancy float0 decimal0 (req_of driver Map.empty) 9 [(spot0 True)\<lparr>updated_at_s := 5\<rparr>] 3 =
     Inr (Response (Dict [(''status'', ''available'')]) 200, [(spot0 False)\<lparr>updated_at_s := 9\<rparr>]) \<and>
   [(spot0 False)\<lparr>updated_at_s := 9\<rparr>] =
     map (\<lambda>r. if id_s r = 3 then (spot0 False)\<lparr>updated_at_s := 9\<rparr> else r) [spot0 False]"
proof -
  have z: "(spot0 False)\<lparr>updated_at_s := 0\<rparr> = spot0 False" by (simp add: spot0_def)
  have a: "toggle_occupancy float0 decimal0 (req_of driver Map.empty) 5 [spot0 False] 3 =
     Inr (Response (Dict [(''status'', ''occupied'')]) 200, [(spot0 True)\<lparr>updated_at_s := 5\<rparr>])"
    using toggle_spot0 [where ts = 5 and occ = False and t = 0] by (simp add: z)
  have b: "toggle_occupancy float0 decimal0 (req_of driver Map.empty) 9 [(spot0 True)\<lparr>updated_at_s := 5\<rparr>] 3 =
     Inr (Response (Dict [(''status'', ''available'')]) 200, [(spot0 False)\<lparr>updated_at_s := 9\<rparr>])"
    using toggle_spot0 [where ts = 9 and occ = True and t = 5] by simp
  have g: "get_object_s float0 decimal0 (req_of driver Map.empty) [spot0 False] 3 = Inr (spot0 False)"
    using get_object_s_spot0 [where occ = False and t = 0] by (simp add: z)
  from toggle_twice [OF a b] g
  have "[(spot0 False)\<lparr>updated_at_s := 9\<rparr>] =
     map (\<lambda>r. if id_s r = 3 then (spot0 False)\<lparr>updated_at_s := 9\<rparr> else r) [spot0 False]"
    by auto
  with a b show ?thesis by blast
qed

text \<open>
  The claim C10 as stated fails: two successive calls do not leave the spot as it was,
  \<open>save()\<close> has stamped \<open>updated_at\<close>.
\<close>

theorem toggle_twice_counterexample:
  "\<not> (\<exists>r1 objects1 r2.
        toggle_occupancy float0 decimal0 (req_of driver Map.empty) 5 [spot0 False] 3 = Inr (r1, objects1) \<and>
        toggle_occupancy float0 decimal0 (req_of driver Map.empty) 9 objects1 3 = Inr (r2, [spot0 False]))"
proof
  assume "\<exists>r1 objects1 r2.
        toggle_occupancy float0 decimal0 (req_of driver Map.empty) 5 [spot0 False] 3 = Inr (r1, objects1) \<and>
        toggle_occupancy float0 decimal0 (req_of driver Map.empty) 9 objects1 3 = Inr (r2, [spot0 False])"
  then obtain r1 objects1 r2 where
    a: "toggle_occupancy float0 decimal0 (req_of driver Map.empty) 5 [spot0 False] 3 = Inr (r1, objects1)"
    and b: "toggle_occupancy float0 decimal0 (req_of driver Map.empty) 9 objects1 3 = Inr (r2, [spot0 False])"
    by blast
  have z: "(spot0 False)\<lparr>updated_at_s := 0\<rparr> = spot0 False" by (simp add: spot0_def)
  from a toggle_spot0 [where ts = 5 and occ = False and t = 0] have "objects1 = [(spot0 True)\<lparr>updated_at_s := 5\<rparr>]"
    by (simp add: z)
  with b toggle_spot0 [where ts = 9 and occ = True and t = 5] have "[(spot0 False)\<lparr>updated_at_s := 9\<rparr>] = [spot0 False]"
    by simp
  then show False by (simp add: spot0_def)
qed

section \<open>The distance function\<close>

subsection \<open>Bounds on the sine, the cosine, the arc sine and \<open>pi\<close>\<close>

lemma sin_sum5: "(\<Sum>m<5. sin_coeff m * x ^ m) = x - x^3/6"
  by (simp add: eval_nat_numeral sin_coeff_Suc cos_coeff_Suc)

lemma sin_sum7: "(\<Sum>m<7. sin_coeff m * x ^ m) = x - x^3/6 + x^5/120"
  by (simp add: eval_nat_numeral sin_coeff_Suc cos_coeff_Suc)

lemma sin_lower5:
  assumes "0 \<le> (x::real)"
  shows "x - x^3/6 - x^5/120 \<le> sin x"
proof -
  have "\<bar>sin x - (\<Sum>m<5. sin_coeff m * x ^ m)\<bar> \<le> inverse (fact 5) * \<bar>x\<bar> ^ 5"
    by (rule Maclaurin_sin_bound)
  then show ?thesis using assms unfolding sin_sum5 by (simp add: fact_numeral abs_if split: if_splits)
qed

lemma sin_bounds7:
  assumes "0 \<le> (x::real)"
  shows "x - x^3/6 + x^5/120 - x^7/5040 \<le> sin x" and "sin x \<le> x - x^3/6 + x^5/120 + x^7/5040"
proof -
  have "\<bar>sin x - (\<Sum>m<7. sin_coeff m * x ^ m)\<bar> \<le> inverse (fact 7) * \<bar>x\<bar> ^ 7"
    by (rule Maclaurin_sin_bound)
  then show "x - x^3/6 + x^5/120 - x^7/5040 \<le> sin x" and "sin x \<le> x - x^3/6 + x^5/120 + x^7/5040"
    using assms unfolding sin_sum7 by (simp_all add: fact_numeral abs_if split: if_splits)
qed

lemma pi_bounds: "3.14 < pi" "pi < 3.142"
proof -
  have h: "sin (pi / 6) = 1 / 2" by (rule sin_30)
  show "3.14 < pi"
  proof (rule ccontr)
    assume "\<not> 3.14 < pi"
    then have le: "pi / 6 \<le> 3.14 / 6" by simp
    have "sin (pi / 6) \<le> sin (3.14 / 6)"
      using le pi_ge_two by (intro sin_monotone_2pi_le) (simp_all, linarith?)
    also have "\<dots> \<le> (3.14/6) - (3.14/6)^3/6 + (3.14/6)^5/120 + (3.14/6)^7/5040"
      by (rule sin_bounds7(2)) simp
    also have "\<dots> < 1 / 2" by (simp add: power_numeral_reduce field_simps)
    finally show False using h by simp
  qed
  show "pi < 3.142"
  proof (rule ccontr)
    assume "\<not> pi < 3.142"
    then have le: "3.142 / 6 \<le> pi / 6" by simp
    have "(1::real) / 2 < (3.142/6) - (3.142/6)^3/6 + (3.142/6)^5/120 - (3.142/6)^7/5040"
      by (simp add: power_numeral_reduce field_simps)
    also have "\<dots> \<le> sin (3.142 / 6)"
      by (rule sin_bounds7(1)) simp
    also have "\<dots> \<le> sin (pi / 6)"
      using le by (intro sin_monotone_2pi_le) (simp_all, linarith?)
    finally show False using h by simp
  qed
qed

lemma sin_squared_le: "(sin x)\<^sup>2 \<le> (x::real)\<^sup>2"
  using abs_sin_x_le_abs_x [of x] by (simp add: abs_le_square_iff)

lemma cos_lower: "1 - (x::real)\<^sup>2 / 2 \<le> cos x"
proof -
  have "cos x = 1 - 2 * (sin (x / 2))\<^sup>2"
    using cos_double_sin [of "x / 2"] by simp
  moreover have "(sin (x / 2))\<^sup>2 \<le> (x / 2)\<^sup>2" by (rule sin_squared_le)
  ultimately show ?thesis by (simp add: power2_eq_square)
qed

lemma arcsin_lower:
  assumes "0 \<le> y" and "y \<le> 1"
  shows "y \<le> arcsin y"
proof -
  have "y \<le> pi / 2" using assms pi_ge_two by linarith
  then have "arcsin (sin y) = y" using assms by (intro arcsin_sin) linarith+
  moreover have "arcsin (sin y) \<le> arcsin y"
    using assms sin_x_le_x [of y] by (intro arcsin_le_arcsin) simp_all
  ultimately show ?thesis by simp
qed

lemma arcsin_upper:
  assumes "0 \<le> y" and "y \<le> sin u" and "0 \<le> u" and "u \<le> 1"
  shows "arcsin y \<le> u"
proof -
  have "u \<le> pi / 2" using assms pi_ge_two by linarith
  then have "arcsin (sin u) = u" using assms by (intro arcsin_sin) linarith+
  moreover have "arcsin y \<le> arcsin (sin u)"
    using assms by (intro arcsin_le_arcsin) simp_all
  ultimately show ?thesis by simp
qed

subsection \<open>The example of the specification\<close>

text \<open>The term \<open>a\<close> of the example lies between the squares of 0.000747 and 0.00075.\<close>

lemma example_a_bounds: "0.000747\<^sup>2 \<le> example_a" "example_a \<le> 0.00075\<^sup>2"
proof -
  define a where "a = example_a"
  define u :: real where "u = 427 * pi / 1800000"
  define v :: real where "v = 23 * pi / 900000"
  have dlat: "(radians 28.5285 - radians 28.6139) / 2 = - u"
    by (simp add: radians_def u_def field_simps)
  have dlon: "(radians 77.2182 - radians 77.2090) / 2 = v"
    by (simp add: radians_def v_def field_simps)
  have a: "a = (sin u)\<^sup>2 + cos (radians 28.6139) * cos (radians 28.5285) * (sin v)\<^sup>2"
    unfolding a_def example_a_def dlat dlon by simp
  have u: "0.0007448 \<le> u" "u \<le> 0.0007454"
    using pi_bounds by (simp_all add: u_def)
  have v: "0.00008024 \<le> v" "v \<le> 0.0000803"
    using pi_bounds by (simp_all add: v_def)
  have phi: "0 \<le> radians 28.6139" "radians 28.6139 \<le> 1/2" "0 \<le> radians 28.5285" "radians 28.5285 \<le> 1/2"
    using pi_bounds by (simp_all add: radians_def)
  have c1: "0.875 \<le> cos (radians 28.6139)"
  proof -
    have "(radians 28.6139)\<^sup>2 \<le> (1/2)\<^sup>2" using phi by (intro power_mono) simp_all
    then show ?thesis using cos_lower [of "radians 28.6139"] by (simp add: power2_eq_square)
  qed
  have c2: "0.875 \<le> cos (radians 28.5285)"
  proof -
    have "(radians 28.5285)\<^sup>2 \<le> (1/2)\<^sup>2" using phi by (intro power_mono) simp_all
    then show ?thesis using cos_lower [of "radians 28.5285"] by (simp add: power2_eq_square)
  qed
  have c: "0.76 \<le> cos (radians 28.6139) * cos (radians 28.5285)"
  proof -
    have "0.875 * 0.875 \<le> cos (radians 28.6139) * cos (radians 28.5285)"
      using c1 c2 by (intro mult_mono) simp_all
    then show ?thesis by simp
  qed
  have c_le: "cos (radians 28.6139) * cos (radians 28.5285) \<le> 1"
    using c1 c2 by (intro mult_le_one) simp_all
  have su: "0.0007447 \<le> sin u"
  proof -
    have "0 \<le> u" using u by simp
    then have "u - u^3/6 - u^5/120 \<le> sin u" by (rule sin_lower5)
    moreover have "u^3 \<le> 0.0007454^3" "u^5 \<le> 0.0007454^5"
      using u by (auto intro!: power_mono)
    ultimately show ?thesis using u by (simp add: power_numeral_reduce)
  qed
  have sv: "0.0000802 \<le> sin v"
  proof -
    have "0 \<le> v" using v by simp
    then have "v - v^3/6 - v^5/120 \<le> sin v" by (rule sin_lower5)
    moreover have "v^3 \<le> 0.0000803^3" "v^5 \<le> 0.0000803^5"
      using v by (auto intro!: power_mono)
    ultimately show ?thesis using v by (simp add: power_numeral_reduce)
  qed
  have su2: "0.0007447\<^sup>2 \<le> (sin u)\<^sup>2" using su by (intro power_mono) simp_all
  have sv2: "0.0000802\<^sup>2 \<le> (sin v)\<^sup>2" using sv by (intro power_mono) simp_all
  have "0.76 * 0.0000802\<^sup>2 \<le> cos (radians 28.6139) * cos (radians 28.5285) * (sin v)\<^sup>2"
    using c sv2 by (intro mult_mono) simp_all
  with su2 have "0.0007447\<^sup>2 + 0.76 * 0.0000802\<^sup>2 \<le> a" unfolding a by linarith
  then show "0.000747\<^sup>2 \<le> example_a" unfolding a_def by (simp add: power2_eq_square)
  have "(sin u)\<^sup>2 \<le> u\<^sup>2" "(sin v)\<^sup>2 \<le> v\<^sup>2" by (rule sin_squared_le)+
  moreover have "u\<^sup>2 \<le> 0.0007454\<^sup>2" "v\<^sup>2 \<le> 0.0000803\<^sup>2"
    using u v by (auto intro!: power_mono)
  moreover have "cos (radians 28.6139) * cos (radians 28.5285) * (sin v)\<^sup>2 \<le> 1 * (sin v)\<^sup>2"
    using c_le by (intro mult_right_mono) simp_all
  ultimately have "a \<le> 0.0007454\<^sup>2 + 0.0000803\<^sup>2" unfolding a by linarith
  then show "example_a \<le> 0.00075\<^sup>2" unfolding a_def by (simp add: power2_eq_square)
qed


lemma example_sqrt_bounds: "0.000747 \<le> sqrt example_a" "sqrt example_a \<le> 0.00075"
proof -
  show "0.000747 \<le> sqrt example_a"
    by (rule real_le_rsqrt) (rule example_a_bounds(1))
  have "(0::real) \<le> 0.00075" by simp
  then show "sqrt example_a \<le> 0.00075"
    by (rule real_le_lsqrt) (rule example_a_bounds(2))
qed

lemma example_sqrt_unit: "0 \<le> sqrt example_a" "sqrt example_a \<le> 1"
proof -
  have "0 \<le> example_a" using example_a_bounds(1) by (simp add: power2_eq_square)
  then show "0 \<le> sqrt example_a" by simp
  have "example_a \<le> 1" using example_a_bounds(2) by (simp add: power2_eq_square)
  then show "sqrt example_a \<le> 1" by simp
qed

lemma example_arcsin_bounds:
  "0.000747 \<le> arcsin (sqrt example_a)" "arcsin (sqrt example_a) \<le> 0.000753"
proof -
  have "sqrt example_a \<le> arcsin (sqrt example_a)"
    using example_sqrt_unit by (rule arcsin_lower)
  with example_sqrt_bounds(1) show "0.000747 \<le> arcsin (sqrt example_a)" by linarith
  have "(0.000753::real) - 0.000753^3/6 - 0.000753^5/120 \<le> sin 0.000753"
    by (rule sin_lower5) simp
  moreover have "(0.00075::real) \<le> 0.000753 - 0.000753^3/6 - 0.000753^5/120"
    by (simp add: power_numeral_reduce)
  ultimately have "sqrt example_a \<le> sin 0.000753"
    using example_sqrt_bounds(2) by linarith
  with example_sqrt_unit(1) show "arcsin (sqrt example_a) \<le> 0.000753"
    by (rule arcsin_upper) simp_all
qed

lemma calculate_distance_example:
  assumes "py_float pf lat1 = Some 28.6139" and "py_float pf lon1 = Some 77.2090"
    and "py_float pf lat2 = Some 28.5285" and "py_float pf lon2 = Some 77.2182"
  shows "calculate_distance pf lat1 lon1 lat2 lon2 = Inr (6371 * (2 * arcsin (sqrt example_a)) * 1000)"
proof -
  have "0 \<le> example_a"
    using example_a_bounds(1) by (simp add: power2_eq_square)
  then have "\<not> (example_a < 0 \<or> 1 < sqrt example_a)"
    using example_sqrt_unit(2) by linarith
  then show ?thesis
    using assms unfolding calculate_distance_def example_a_def Let_def by simp
qed

text \<open>
  C8, as the code computes. The distance between the query point (28.6139, 77.2090) and
  the candidate (28.5285, 77.2182) is a value between 9,500 and 9,600 meters.
\<close>

theorem distance_example:
  "\<exists>d. calculate_distance pf (PyFloat 28.6139) (PyFloat 77.2090) (PyFloat 28.5285) (PyFloat 77.2182)
          = Inr d \<and> 9500 < d \<and> d < 9600"
proof -
  let ?d = "6371 * (2 * arcsin (sqrt example_a)) * 1000"
  have "calculate_distance pf (PyFloat 28.6139) (PyFloat 77.2090) (PyFloat 28.5285) (PyFloat 77.2182)
          = Inr ?d"
    by (rule calculate_distance_example) simp_all
  moreover have "9500 < ?d" "?d < 9600"
    using example_arcsin_bounds by simp_all
  ultimately show ?thesis by blast
qed

text \<open>The claim C8 as stated fails: the distance is not between 9,600 and 9,700 meters.\<close>

theorem distance_example_counterexample:
  "\<not> (\<exists>d. calculate_distance float0 (PyFloat 28.6139) (PyFloat 77.2090) (PyFloat 28.5285) (PyFloat 77.2182)
            = Inr d \<and> 9600 \<le> d \<and> d \<le> 9700)"
proof -
  have "calculate_distance float0 (PyFloat 28.6139) (PyFloat 77.2090) (PyFloat 28.5285) (PyFloat 77.2182)
          = Inr (6371 * (2 * arcsin (sqrt example_a)) * 1000)"
    by (rule calculate_distance_example) simp_all
  moreover have "6371 * (2 * arcsin (sqrt example_a)) * 1000 < 9600"
    using example_arcsin_bounds by simp
  ultimately show ?thesis by simp
qed

section \<open>The proximity search\<close>

text \<open>With \<open>lat\<close> and \<open>lon\<close> in the query string, \<open>get_queryset\<close> never returns a \<open>QuerySet\<close>.\<close>

lemma get_queryset_s_list:
  assumes "truthy (query_params req ''lat'')" and "truthy (query_params req ''lon'')"
  shows "get_queryset_s pf pd req objects \<noteq> Inr (QuerySet q)"
  using assms by (auto simp: get_queryset_s_def Let_def split: sum.splits option.splits)

text \<open>
  The loop of \<open>nearby\<close> by itself does what the claim says: on a list of spots it yields,
  once sorted, distances in non-decreasing order, none above the radius, and exactly the
  spots whose distance is within the radius.
\<close>

lemma nearby_spots_within:
  assumes "nearby_spots pf lat lon radius spots = Inr found"
  shows "\<forall>(s, d) \<in> set found. d \<le> radius \<and> s \<in> set spots \<and>
           calculate_distance pf (PyStr lat) (PyStr lon) (Decimal (latitude s)) (Decimal (longitude s)) = Inr d"
  using assms
proof (induction spots arbitrary: found)
  case Nil
  then show ?case by simp
next
  case (Cons spot spots)
  then show ?case by (fastforce split: sum.splits if_splits)
qed

lemma nearby_spots_sorted:
  assumes "nearby_spots pf lat lon radius spots = Inr found"
  shows "sorted (map snd (sort_key snd found)) \<and> (\<forall>(s, d) \<in> set (sort_key snd found). d \<le> radius)"
  using nearby_spots_within [OF assms] by (auto simp: sorted_sort_key)

text \<open>
  C2 fails on the code. A request that gives \<open>lat\<close> and \<open>lon\<close> gets no list from
  \<open>nearby\<close>: every such request raises, and when the radius parses and \<open>get_queryset\<close>
  succeeds the exception is the \<open>AttributeError\<close> of calling \<open>.filter\<close> on the list that
  \<open>get_queryset\<close> returns.
\<close>

theorem nearby_raises:
  assumes "truthy (query_params req ''lat'')" and "truthy (query_params req ''lon'')"
  shows "(\<exists>e. nearby pf pd req objects = Inl e) \<and>
         ((case query_params req ''radius'' of None \<Rightarrow> Some 5000 | Some r \<Rightarrow> pf r) \<noteq> None \<and>
          (\<exists>q. get_queryset_s pf pd req objects = Inr q) \<longrightarrow>
            nearby pf pd req objects = Inl AttributeError)"
proof -
  have "get_queryset_s pf pd req objects \<noteq> Inr (QuerySet q)" for q
    using assms by (rule get_queryset_s_list)
  then show ?thesis
    using assms by (auto simp: nearby_def Let_def split: sum.splits option.splits spots.splits)
qed

lemma spots_with_distance_spot0:
  "spots_with_distance float0 ''28.6139'' ''77.2090'' [spot0 occ] =
     Inr [(spot0 occ, 6371 * (2 * arcsin (sqrt example_a)) * 1000)]"
proof -
  have "calculate_distance float0 (PyStr ''28.6139'') (PyStr ''77.2090'')
          (Decimal (latitude (spot0 occ))) (Decimal (longitude (spot0 occ))) =
        Inr (6371 * (2 * arcsin (sqrt example_a)) * 1000)"
    by (rule calculate_distance_example) (simp_all add: float0_def spot0_def of_rat_divide)
  then show ?thesis by simp
qed

lemma get_queryset_s_spot0:
  "get_queryset_s float0 decimal0 nearby_request [spot0 occ] =
     Inr (PyList [(spot0 occ, 6371 * (2 * arcsin (sqrt example_a)) * 1000)])"
  by (simp add: get_queryset_s_def nearby_request_def spots_with_distance_spot0
      del: spots_with_distance.simps)

theorem nearby_raises_witness:
  "nearby float0 decimal0 nearby_request [spot0 False] = Inl AttributeError"
proof -
  have "truthy (query_params nearby_request ''lat'')" "truthy (query_params nearby_request ''lon'')"
    by (simp_all add: nearby_request_def)
  moreover have "(case query_params nearby_request ''radius'' of None \<Rightarrow> Some 5000 | Some r \<Rightarrow> float0 r) \<noteq> None"
    by (simp add: nearby_request_def float0_def)
  moreover have "\<exists>q. get_queryset_s float0 decimal0 nearby_request [spot0 False] = Inr q"
    using get_queryset_s_spot0 by blast
  ultimately show ?thesis using nearby_raises [of nearby_request float0 decimal0 "[spot0 False]"] by blast
qed

end
